theory Spec2Isabelle
  imports Complex_Main
begin

section \<open>Numbers as the tracker computes them\<close>

text \<open>
  The tracker computes in 64-bit floats. The embedding takes the finite values as real
  numbers (rounding is left out) and keeps the three special values a numpy division
  produces instead of raising: \<open>x / 0\<close> is \<open>inf\<close>, \<open>-inf\<close> or \<open>nan\<close> together with a
  warning, never an exception.
\<close>

datatype npfloat = Fin real | PInf | NInf | NaN

fun np_neg :: "npfloat \<Rightarrow> npfloat" where
  "np_neg (Fin a) = Fin (- a)"
| "np_neg PInf = NInf"
| "np_neg NInf = PInf"
| "np_neg NaN = NaN"

fun np_add :: "npfloat \<Rightarrow> npfloat \<Rightarrow> npfloat" where
  "np_add NaN _ = NaN"
| "np_add _ NaN = NaN"
| "np_add (Fin a) (Fin b) = Fin (a + b)"
| "np_add PInf NInf = NaN"
| "np_add NInf PInf = NaN"
| "np_add PInf _ = PInf"
| "np_add _ PInf = PInf"
| "np_add NInf _ = NInf"
| "np_add _ NInf = NInf"

definition np_sub :: "npfloat \<Rightarrow> npfloat \<Rightarrow> npfloat" where
  "np_sub a b = np_add a (np_neg b)"

text \<open>The sign of a value that is not \<open>nan\<close>: \<open>-1\<close>, \<open>0\<close> or \<open>1\<close>.\<close>

fun np_sign :: "npfloat \<Rightarrow> int" where
  "np_sign (Fin a) = (if a < 0 then - 1 else if a = 0 then 0 else 1)"
| "np_sign PInf = 1"
| "np_sign NInf = - 1"
| "np_sign NaN = 0"

fun np_mul :: "npfloat \<Rightarrow> npfloat \<Rightarrow> npfloat" where
  "np_mul NaN _ = NaN"
| "np_mul _ NaN = NaN"
| "np_mul (Fin a) (Fin b) = Fin (a * b)"
| "np_mul a b =
     (if np_sign a * np_sign b = 0 then NaN
      else if np_sign a * np_sign b > 0 then PInf else NInf)"

text \<open>
  numpy's true division. A zero denominator is taken as \<open>+0.0\<close>, the zero a norm or a
  difference of equal floats produces.
\<close>

fun np_div :: "npfloat \<Rightarrow> npfloat \<Rightarrow> npfloat" where
  "np_div NaN _ = NaN"
| "np_div _ NaN = NaN"
| "np_div (Fin a) (Fin b) =
     (if b \<noteq> 0 then Fin (a / b)
      else if a > 0 then PInf else if a < 0 then NInf else NaN)"
| "np_div (Fin a) _ = Fin 0"
| "np_div a (Fin b) =
     (if (b < 0) = (a = PInf) then NInf else PInf)"
| "np_div _ _ = NaN"

text \<open>Python's \<open>int(x)\<close> on a float: truncation towards zero.\<close>

definition py_int :: "real \<Rightarrow> int" where
  "py_int r = (if r \<ge> 0 then \<lfloor>r\<rfloor> else \<lceil>r\<rceil>)"

datatype py_error = IndexError

text \<open>
  Reading \<open>xs[i]\<close> as Python does: an index below zero is taken from the end of the
  sequence, and an index outside \<open>-len(xs) .. len(xs) - 1\<close> raises.
\<close>

definition py_get :: "'a list \<Rightarrow> int \<Rightarrow> py_error + 'a" where
  "py_get xs i =
     (if 0 \<le> i \<and> i < int (length xs) then Inr (xs ! nat i)
      else if i < 0 \<and> - int (length xs) \<le> i then Inr (xs ! nat (int (length xs) + i))
      else Inl IndexError)"

text \<open>
  \<open>numpy.arctan2(y, x)\<close>: the angle of the point \<open>(x, y)\<close> in \<open>[-pi, pi]\<close>; at the
  origin it is \<open>0\<close>.
\<close>

definition np_arctan2 :: "real \<Rightarrow> real \<Rightarrow> real" where
  "np_arctan2 y x =
     (if x > 0 then arctan (y / x)
      else if x < 0 \<and> y \<ge> 0 then arctan (y / x) + pi
      else if x < 0 then arctan (y / x) - pi
      else if y > 0 then pi / 2
      else if y < 0 then - (pi / 2)
      else 0)"

section \<open>Feature extraction\<close>

text \<open>
  One landmark of the face mesh: normalised \<open>x\<close>, \<open>y\<close> and depth \<open>z\<close>. A frame's landmarks
  are indexed by the mesh's landmark number; the detector delivers every index the
  tracker reads.
\<close>

record landmark =
  lm_x :: real
  lm_y :: real
  lm_z :: real

type_synonym landmarks = "nat \<Rightarrow> landmark"

type_synonym vec2 = "real \<times> real"

type_synonym vec3 = "real \<times> real \<times> real"

definition LEFT_EYE :: "nat list" where
  "LEFT_EYE = [362, 382, 381, 380, 374, 373, 390, 249, 263, 466, 388, 387, 386, 385, 384, 398]"

definition RIGHT_EYE :: "nat list" where
  "RIGHT_EYE = [33, 7, 163, 144, 145, 153, 154, 155, 133, 173, 157, 158, 159, 160, 161, 246]"

definition LEFT_IRIS :: "nat list" where
  "LEFT_IRIS = [474, 475, 476, 477]"

definition RIGHT_IRIS :: "nat list" where
  "RIGHT_IRIS = [469, 470, 471, 472]"

text \<open>\<open>np.linalg.norm(a - b)\<close> for points of the plane and of space.\<close>

definition norm2 :: "vec2 \<Rightarrow> vec2 \<Rightarrow> real" where
  "norm2 a b = sqrt ((fst a - fst b)\<^sup>2 + (snd a - snd b)\<^sup>2)"

definition norm3 :: "vec3 \<Rightarrow> vec3 \<Rightarrow> real" where
  "norm3 a b =
     sqrt ((fst a - fst b)\<^sup>2 + (fst (snd a) - fst (snd b))\<^sup>2 + (snd (snd a) - snd (snd b))\<^sup>2)"

text \<open>\<open>np.mean(points, axis=0)\<close> of a list of points of the plane.\<close>

definition mean2 :: "vec2 list \<Rightarrow> vec2" where
  "mean2 ps = (sum_list (map fst ps) / real (length ps), sum_list (map snd ps) / real (length ps))"

definition xy :: "landmarks \<Rightarrow> nat \<Rightarrow> vec2" where
  "xy lms i = (lm_x (lms i), lm_y (lms i))"

definition xyz :: "landmarks \<Rightarrow> nat \<Rightarrow> vec3" where
  "xyz lms i = (lm_x (lms i), lm_y (lms i), lm_z (lms i))"

definition calculate_eye_aspect_ratio :: "vec2 list \<Rightarrow> npfloat" where
  "calculate_eye_aspect_ratio eye_landmarks =
     (let v1 = norm2 (eye_landmarks ! 1) (eye_landmarks ! 5);
          v2 = norm2 (eye_landmarks ! 2) (eye_landmarks ! 4);
          v3 = norm2 (eye_landmarks ! 3) (eye_landmarks ! 7);
          h = norm2 (eye_landmarks ! 0) (eye_landmarks ! 8)
      in np_div (Fin (v1 + v2 + v3)) (Fin (3 * h)))"

text \<open>The local values of \<open>extract_eye_features\<close>, under the source's names.\<close>

definition left_eye_landmarks :: "landmarks \<Rightarrow> vec2 list" where
  "left_eye_landmarks lms = map (xy lms) LEFT_EYE"

definition right_eye_landmarks :: "landmarks \<Rightarrow> vec2 list" where
  "right_eye_landmarks lms = map (xy lms) RIGHT_EYE"

definition left_iris :: "landmarks \<Rightarrow> vec2 list" where
  "left_iris lms = map (xy lms) LEFT_IRIS"

definition right_iris :: "landmarks \<Rightarrow> vec2 list" where
  "right_iris lms = map (xy lms) RIGHT_IRIS"

definition left_eye_center :: "landmarks \<Rightarrow> vec2" where
  "left_eye_center lms = mean2 (left_iris lms)"

definition right_eye_center :: "landmarks \<Rightarrow> vec2" where
  "right_eye_center lms = mean2 (right_iris lms)"

definition left_ear :: "landmarks \<Rightarrow> npfloat" where
  "left_ear lms = calculate_eye_aspect_ratio (take 9 (left_eye_landmarks lms))"

definition right_ear :: "landmarks \<Rightarrow> npfloat" where
  "right_ear lms = calculate_eye_aspect_ratio (take 9 (right_eye_landmarks lms))"

definition left_iris_to_corner :: "landmarks \<Rightarrow> real" where
  "left_iris_to_corner lms = norm2 (left_eye_center lms) (left_eye_landmarks lms ! 0)"

definition right_iris_to_corner :: "landmarks \<Rightarrow> real" where
  "right_iris_to_corner lms = norm2 (right_eye_center lms) (right_eye_landmarks lms ! 0)"

definition nose_tip :: "landmarks \<Rightarrow> vec3" where
  "nose_tip lms = xyz lms 1"

definition chin :: "landmarks \<Rightarrow> vec3" where
  "chin lms = xyz lms 199"

definition left_eye_left :: "landmarks \<Rightarrow> vec3" where
  "left_eye_left lms = xyz lms (LEFT_EYE ! 0)"

definition right_eye_right :: "landmarks \<Rightarrow> vec3" where
  "right_eye_right lms = xyz lms (RIGHT_EYE ! 8)"

definition head_pitch :: "landmarks \<Rightarrow> real" where
  "head_pitch lms =
     np_arctan2 (fst (snd (chin lms)) - fst (snd (nose_tip lms)))
                (snd (snd (chin lms)) - snd (snd (nose_tip lms)))"

definition head_yaw :: "landmarks \<Rightarrow> real" where
  "head_yaw lms =
     np_arctan2 (fst (right_eye_right lms) - fst (left_eye_left lms))
                (snd (snd (right_eye_right lms)) - snd (snd (left_eye_left lms)))"

definition face_width :: "landmarks \<Rightarrow> real" where
  "face_width lms = norm3 (right_eye_right lms) (left_eye_left lms)"

definition left_iris_rel_x :: "landmarks \<Rightarrow> npfloat" where
  "left_iris_rel_x lms =
     np_div (Fin (fst (left_eye_center lms) - fst (left_eye_landmarks lms ! 0)))
            (Fin (face_width lms))"

definition right_iris_rel_x :: "landmarks \<Rightarrow> npfloat" where
  "right_iris_rel_x lms =
     np_div (Fin (fst (right_eye_center lms) - fst (right_eye_landmarks lms ! 0)))
            (Fin (face_width lms))"

text \<open>The feature vector: the concatenation of the source, in its order.\<close>

definition extract_eye_features :: "landmarks \<Rightarrow> npfloat list" where
  "extract_eye_features lms =
     [Fin (fst (left_eye_center lms)), Fin (snd (left_eye_center lms))] @
     [Fin (fst (right_eye_center lms)), Fin (snd (right_eye_center lms))] @
     [Fin (fst (mean2 (left_iris lms))), Fin (snd (mean2 (left_iris lms)))] @
     [Fin (fst (mean2 (right_iris lms))), Fin (snd (mean2 (right_iris lms)))] @
     [left_ear lms, right_ear lms] @
     [Fin (left_iris_to_corner lms), Fin (right_iris_to_corner lms)] @
     [Fin (lm_x (lms 1)), Fin (lm_y (lms 1))] @
     [Fin (lm_x (lms 199)), Fin (lm_y (lms 199))] @
     [Fin (head_pitch lms), Fin (head_yaw lms)] @
     [left_iris_rel_x lms, right_iris_rel_x lms] @
     [Fin (face_width lms)]"

text \<open>
  What the control loop reads out of a frame's feature vector and passes to the blink
  handler as \<open>left_ear\<close> and \<open>right_ear\<close>: \<open>features[-6]\<close> and \<open>features[-5]\<close>.
\<close>

definition frame_blink_inputs :: "landmarks \<Rightarrow> py_error + (npfloat \<times> npfloat)" where
  "frame_blink_inputs lms =
     (let features = extract_eye_features lms
      in case py_get features (- 6) of
           Inl e \<Rightarrow> Inl e
         | Inr l \<Rightarrow> (case py_get features (- 5) of
                       Inl e \<Rightarrow> Inl e
                     | Inr r \<Rightarrow> Inr (l, r)))"

text \<open>
  A frame with an open eye: both eyes are 0.1 wide and 0.03 high (eye aspect ratio 0.3),
  the chin lies at height 0.8 and the nose tip at height 0.5, 0.1 in front of the chin.
\<close>

definition open_eye_frame :: landmarks where
  "open_eye_frame i =
     (if i \<in> {382, 381, 380, 7, 163, 144} then \<lparr>lm_x = 0.5, lm_y = 0.40, lm_z = 0\<rparr>
      else if i \<in> {373, 374, 249, 153, 145, 155} then \<lparr>lm_x = 0.5, lm_y = 0.43, lm_z = 0\<rparr>
      else if i = 362 then \<lparr>lm_x = 0.55, lm_y = 0.415, lm_z = 0\<rparr>
      else if i = 263 then \<lparr>lm_x = 0.65, lm_y = 0.415, lm_z = 0\<rparr>
      else if i = 33 then \<lparr>lm_x = 0.35, lm_y = 0.415, lm_z = 0\<rparr>
      else if i = 133 then \<lparr>lm_x = 0.45, lm_y = 0.415, lm_z = 0\<rparr>
      else if i = 199 then \<lparr>lm_x = 0.5, lm_y = 0.8, lm_z = 0\<rparr>
      else if i = 1 then \<lparr>lm_x = 0.5, lm_y = 0.5, lm_z = - 0.1\<rparr>
      else \<lparr>lm_x = 0.5, lm_y = 0.415, lm_z = 0\<rparr>)"

section \<open>The tracker's state\<close>

datatype mode = Cursor | Scroll | Click | Drag

text \<open>
  The attributes \<open>blink_relative_mode\<close>, \<open>blink_baseline\<close> and
  \<open>blink_relative_threshold\<close> do not exist on a new tracker; the blink calibration and
  the loading of a profile create the three together.
\<close>

record blink_relative =
  blink_relative_mode :: bool
  blink_baseline :: real
  blink_relative_threshold :: real

text \<open>
  The fields of \<open>EyeTrackerCursor\<close> that the calibration, the smoother, the blink handler
  and the scroll handler read or write. \<open>'m\<close> is a fitted regressor and \<open>'s\<close> a scaler of
  the learning library. \<open>prev_x\<close> and \<open>prev_y\<close> are unset or set together, so they are one
  optional pair; \<open>ear_history\<close> and \<open>dragging\<close> are attributes created on first use.
\<close>

record ('m, 's) tracker =
  screen_width :: int
  screen_height :: int
  calibration_data :: "(npfloat list \<times> (int \<times> int)) list"
  calibration_points :: "(int \<times> int) list"
  model_x :: "'m option"
  model_y :: "'m option"
  scaler :: 's
  mode :: mode
  blink_threshold :: real
  last_blink_time :: real
  blink_cooldown :: real
  long_blink_threshold :: real
  blink_start_time :: "real option"
  smoothing_factor :: real
  prev :: "(real \<times> real) option"
  cursor_speed :: real
  blink_relative :: "blink_relative option"
  ear_history :: "real list option"
  dragging :: "bool option"

text \<open>
  \<open>__init__\<close>: the screen size comes from the host, \<open>now\<close> is the clock at construction
  and \<open>unfitted\<close> the new, unfitted scaler.
\<close>

definition init_tracker :: "int \<Rightarrow> int \<Rightarrow> real \<Rightarrow> 's \<Rightarrow> ('m, 's) tracker" where
  "init_tracker w h now unfitted =
     \<lparr>screen_width = w, screen_height = h,
      calibration_data = [], calibration_points = [],
      model_x = None, model_y = None, scaler = unfitted,
      mode = Cursor, blink_threshold = 0.2, last_blink_time = now,
      blink_cooldown = 0.05, long_blink_threshold = 1.0, blink_start_time = None,
      smoothing_factor = 0.8, prev = None, cursor_speed = 0.05,
      blink_relative = None, ear_history = None, dragging = None\<rparr>"

section \<open>Calibration\<close>

subsection \<open>The numpy and scikit-learn calls\<close>

text \<open>
  Sorting places \<open>nan\<close> last, as numpy does; \<open>np_le\<close> is the order it sorts by.
\<close>

fun np_le :: "npfloat \<Rightarrow> npfloat \<Rightarrow> bool" where
  "np_le _ NaN = True"
| "np_le NaN _ = False"
| "np_le NInf _ = True"
| "np_le _ NInf = False"
| "np_le _ PInf = True"
| "np_le PInf _ = False"
| "np_le (Fin a) (Fin b) = (a \<le> b)"

fun insort_by :: "('a \<Rightarrow> npfloat) \<Rightarrow> 'a \<Rightarrow> 'a list \<Rightarrow> 'a list" where
  "insort_by k x [] = [x]"
| "insort_by k x (y # ys) = (if np_le (k x) (k y) then x # y # ys else y # insort_by k x ys)"

definition np_sort :: "npfloat list \<Rightarrow> npfloat list" where
  "np_sort xs = foldr (insort_by (\<lambda>v. v)) xs []"

definition np_sum :: "npfloat list \<Rightarrow> npfloat" where
  "np_sum xs = foldl np_add (Fin 0) xs"

definition np_mean :: "npfloat list \<Rightarrow> npfloat" where
  "np_mean xs = np_div (np_sum xs) (Fin (real (length xs)))"

text \<open>
  \<open>np.median\<close> of one column: \<open>nan\<close> when the column holds a \<open>nan\<close>, else the middle of
  the sorted column, the mean of the two middle values when their number is even.
\<close>

definition np_median :: "npfloat list \<Rightarrow> npfloat" where
  "np_median xs =
     (let s = np_sort xs; n = length s
      in if NaN \<in> set xs then NaN
         else if odd n then s ! (n div 2)
         else np_mean [s ! (n div 2 - 1), s ! (n div 2)])"

datatype lib_error = ValueError

text \<open>
  The library calls whose result the tracker only stores or passes on. \<open>argsort\<close> is
  \<open>np.argsort\<close>, whose order among equal keys is the library's own;
  \<open>scaler_fit_transform\<close> is \<open>StandardScaler.fit_transform\<close> and gives the fitted scaler
  with the scaled rows; \<open>gbr_fit\<close> builds and fits a \<open>GradientBoostingRegressor\<close>. A fit
  may raise (on a row that is not finite, for instance), and the exception leaves the
  calibration.
\<close>

record ('m, 's) library =
  argsort :: "npfloat list \<Rightarrow> nat list"
  scaler_fit_transform :: "npfloat list list \<Rightarrow> lib_error + ('s \<times> npfloat list list)"
  gbr_fit :: "npfloat list list \<Rightarrow> int list \<Rightarrow> lib_error + 'm"

subsection \<open>The targets\<close>

definition x_points :: "int \<Rightarrow> real list" where
  "x_points w =
     [real_of_int w * 0.1, real_of_int w * 0.2,
      real_of_int w * 0.3, real_of_int w * 0.4,
      real_of_int w * 0.5, real_of_int w * 0.6,
      real_of_int w * 0.7, real_of_int w * 0.8,
      real_of_int w * 0.9, real_of_int w * 0.95]"

definition y_points :: "int \<Rightarrow> int \<Rightarrow> real list" where
  "y_points w h =
     [real_of_int h * 0.1, real_of_int h * 0.2,
      real_of_int h * 0.3, real_of_int h * 0.4,
      real_of_int h * 0.5, real_of_int h * 0.6,
      real_of_int h * 0.7, real_of_int h * 0.8,
      real_of_int h * 0.9, real_of_int w * 0.95]"

text \<open>
  The two nested loops that fill \<open>calibration_points\<close>: every pair is offered in turn and
  appended while fewer than \<open>num_points\<close> targets are listed.
\<close>

definition make_calibration_points :: "int \<Rightarrow> int \<Rightarrow> int \<Rightarrow> (int \<times> int) list" where
  "make_calibration_points w h num_points =
     foldl (\<lambda>pts x.
        foldl (\<lambda>pts y.
           if int (length pts) < num_points then pts @ [(py_int x, py_int y)] else pts)
          pts (y_points w h))
       [] (x_points w)"

subsection \<open>Sampling one target\<close>

text \<open>
  One turn of the sampling loop reads the camera and runs the detector: the read fails,
  or the detector finds no face, or it delivers the landmarks of a face. The turns of a
  target's three seconds are a list.
\<close>

datatype frame_obs = ReadFailed | NoFace | Face landmarks

fun sample_point :: "frame_obs list \<Rightarrow> npfloat list list \<Rightarrow> npfloat list list" where
  "sample_point [] point_data = point_data"
| "sample_point (ReadFailed # turns) point_data = sample_point turns point_data"
| "sample_point (NoFace # turns) point_data = sample_point turns point_data"
| "sample_point (Face lms # turns) point_data =
     sample_point turns (point_data @ [extract_eye_features lms])"

definition median_features :: "npfloat list list \<Rightarrow> npfloat list" where
  "median_features point_data = map np_median (transpose point_data)"

definition distances :: "npfloat list list \<Rightarrow> npfloat list" where
  "distances point_data =
     map (\<lambda>row. np_sum (map (\<lambda>(a, m). np_mul (np_sub a m) (np_sub a m))
                              (zip row (median_features point_data))))
       point_data"

definition keep_indices :: "('m, 's) library \<Rightarrow> npfloat list list \<Rightarrow> nat list" where
  "keep_indices lib point_data =
     take (nat (py_int (real (length (distances point_data)) * 0.8)))
       (argsort lib (distances point_data))"

definition filtered_data :: "('m, 's) library \<Rightarrow> npfloat list list \<Rightarrow> npfloat list list" where
  "filtered_data lib point_data = map (\<lambda>i. point_data ! i) (keep_indices lib point_data)"

definition avg_features :: "('m, 's) library \<Rightarrow> npfloat list list \<Rightarrow> npfloat list" where
  "avg_features lib point_data = map np_mean (transpose (filtered_data lib point_data))"

text \<open>
  The body of the loop over the targets, after the countdown: sample the target, then
  either append its averaged sample or report the target as failed.
\<close>

definition calibrate_target ::
  "('m, 's) library \<Rightarrow> int \<times> int \<Rightarrow> frame_obs list \<Rightarrow> ('m, 's) tracker \<Rightarrow> ('m, 's) tracker" where
  "calibrate_target lib point turns st =
     (let point_data = sample_point turns []
      in if length point_data > 10
         then st\<lparr>calibration_data :=
                   calibration_data st @ [(avg_features lib point_data, point)]\<rparr>
         else st)"

text \<open>\<open>turns_of idx\<close> are the sampling turns of the target with index \<open>idx\<close>.\<close>

fun calibrate_targets ::
  "('m, 's) library \<Rightarrow> (nat \<Rightarrow> frame_obs list) \<Rightarrow> nat \<Rightarrow> (int \<times> int) list
     \<Rightarrow> ('m, 's) tracker \<Rightarrow> ('m, 's) tracker" where
  "calibrate_targets lib turns_of point_idx [] st = st"
| "calibrate_targets lib turns_of point_idx (point # points) st =
     calibrate_targets lib turns_of (Suc point_idx) points
       (calibrate_target lib point (turns_of point_idx) st)"

subsection \<open>Fitting\<close>

text \<open>
  The end of \<open>calibrate\<close>: with six samples or more the scaler and the two regressors are
  fitted and stored; the printed error report changes nothing and is left out.
\<close>

definition train_models ::
  "('m, 's) library \<Rightarrow> ('m, 's) tracker \<Rightarrow> lib_error + (bool \<times> ('m, 's) tracker)" where
  "train_models lib st =
     (if length (calibration_data st) \<ge> 6 then
        (let X = map fst (calibration_data st);
             y_x = map (\<lambda>d. fst (snd d)) (calibration_data st);
             y_y = map (\<lambda>d. snd (snd d)) (calibration_data st)
         in case scaler_fit_transform lib X of
              Inl e \<Rightarrow> Inl e
            | Inr (sc, X_scaled) \<Rightarrow>
                (case gbr_fit lib X_scaled y_x of
                   Inl e \<Rightarrow> Inl e
                 | Inr mx \<Rightarrow>
                     (case gbr_fit lib X_scaled y_y of
                        Inl e \<Rightarrow> Inl e
                      | Inr my \<Rightarrow>
                          Inr (True, st\<lparr>scaler := sc, model_x := Some mx, model_y := Some my\<rparr>))))
      else Inr (False, st))"

text \<open>The state when the last target is done.\<close>

definition after_targets ::
  "('m, 's) library \<Rightarrow> (nat \<Rightarrow> frame_obs list) \<Rightarrow> int \<Rightarrow> ('m, 's) tracker \<Rightarrow> ('m, 's) tracker" where
  "after_targets lib turns_of num_points st =
     (let st1 = st\<lparr>calibration_points :=
                    make_calibration_points (screen_width st) (screen_height st) num_points\<rparr>
      in calibrate_targets lib turns_of 0 (calibration_points st1) st1)"

text \<open>\<open>camera_opens\<close> is the result of \<open>start_camera\<close>.\<close>

definition calibrate ::
  "('m, 's) library \<Rightarrow> bool \<Rightarrow> (nat \<Rightarrow> frame_obs list) \<Rightarrow> int \<Rightarrow> ('m, 's) tracker
     \<Rightarrow> lib_error + (bool \<times> ('m, 's) tracker)" where
  "calibrate lib camera_opens turns_of num_points st =
     (if \<not> camera_opens then Inr (False, st)
      else train_models lib (after_targets lib turns_of num_points st))"

section \<open>Modes\<close>

definition modes :: "mode list" where
  "modes = [Cursor, Scroll, Click, Drag]"

fun mode_name :: "mode \<Rightarrow> string" where
  "mode_name Cursor = ''cursor''"
| "mode_name Scroll = ''scroll''"
| "mode_name Click = ''click''"
| "mode_name Drag = ''drag''"

text \<open>\<open>modes.index(m)\<close>: the position of the first occurrence.\<close>

fun index_of :: "mode list \<Rightarrow> mode \<Rightarrow> nat" where
  "index_of [] m = 0"
| "index_of (a # as) m = (if a = m then 0 else Suc (index_of as m))"

fun mode_speed :: "mode \<Rightarrow> real" where
  "mode_speed Cursor = 0.05"
| "mode_speed Scroll = 0.02"
| "mode_speed Click = 0.04"
| "mode_speed Drag = 0.03"

definition switch_mode :: "('m, 's) tracker \<Rightarrow> mode \<times> ('m, 's) tracker" where
  "switch_mode st =
     (let current_idx = index_of modes (mode st);
          next_idx = (current_idx + 1) mod length modes;
          st1 = st\<lparr>mode := modes ! next_idx\<rparr>;
          st2 = st1\<lparr>cursor_speed := mode_speed (mode st1)\<rparr>
      in (mode st2, st2))"

section \<open>The blink handler\<close>

text \<open>
  \<open>np.percentile(xs, q)\<close> of a list that is not empty, with numpy's linear interpolation
  between the two nearest ranks.
\<close>

definition np_percentile :: "real list \<Rightarrow> real \<Rightarrow> real" where
  "np_percentile xs q =
     (let s = sort xs;
          pos = q / 100 * real (length xs - 1);
          lo = nat \<lfloor>pos\<rfloor>;
          hi = min (lo + 1) (length xs - 1)
      in s ! lo + (pos - real lo) * (s ! hi - s ! lo))"

text \<open>
  The first part of \<open>handle_blink\<close>: the decision \<open>is_blink\<close> for the frame's average eye
  aspect ratio, with the history that relative mode keeps.
\<close>

definition relative_mode :: "('m, 's) tracker \<Rightarrow> bool" where
  "relative_mode st =
     (case blink_relative st of None \<Rightarrow> False | Some cfg \<Rightarrow> blink_relative_mode cfg)"

definition push_ear :: "real \<Rightarrow> real list option \<Rightarrow> real list" where
  "push_ear avg_ear history =
     (let h = (case history of None \<Rightarrow> [] | Some h0 \<Rightarrow> h0) @ [avg_ear]
      in if length h > 30 then tl h else h)"

definition detect_blink :: "real \<Rightarrow> ('m, 's) tracker \<Rightarrow> bool \<times> ('m, 's) tracker" where
  "detect_blink avg_ear st =
     (if relative_mode st then
        (let st1 = st\<lparr>ear_history := Some (push_ear avg_ear (ear_history st))\<rparr>;
             h = push_ear avg_ear (ear_history st)
         in if length h \<ge> 10 then
              (let baseline = np_percentile h 80
               in (avg_ear < baseline *
                     (1 - (case blink_relative st of
                             None \<Rightarrow> 0 | Some cfg \<Rightarrow> blink_relative_threshold cfg)),
                   st1))
            else (False, st1))
      else (avg_ear < blink_threshold st, st))"

text \<open>
  The second part: the transitions. \<open>current_time\<close> is the clock read at entry. The
  result is the returned event name (\<open>None\<close> for no event) with the new state; the
  clicks themselves are calls to the host and are not part of the state.
\<close>

definition blink_action ::
  "real \<Rightarrow> ('m, 's) tracker \<Rightarrow> string option \<times> ('m, 's) tracker" where
  "blink_action blink_duration st =
     (if blink_duration < 0.3 then
        (if mode st = Cursor \<or> mode st = Click then (Some ''click'', st)
         else if mode st = Drag then
           (Some ''drag_toggle'',
            st\<lparr>dragging := Some (\<not> (case dragging st of None \<Rightarrow> False | Some d \<Rightarrow> d))\<rparr>)
         else (None, st))
      else if 0.3 \<le> blink_duration \<and> blink_duration < long_blink_threshold st then
        (if mode st = Cursor \<or> mode st = Click then (Some ''right_click'', st)
         else (None, st))
      else
        (let (new_mode, st1) = switch_mode st
         in (Some (''mode_switch_'' @ mode_name new_mode), st1)))"

definition handle_blink ::
  "real \<Rightarrow> real \<Rightarrow> real \<Rightarrow> ('m, 's) tracker \<Rightarrow> string option \<times> ('m, 's) tracker" where
  "handle_blink current_time left right st =
     (let avg_ear = (left + right) / 2;
          (is_blink, st1) = detect_blink avg_ear st
      in case blink_start_time st1 of
           None \<Rightarrow>
             if is_blink then (None, st1\<lparr>blink_start_time := Some current_time\<rparr>)
             else (None, st1)
         | Some start \<Rightarrow>
             if \<not> is_blink then
               (let blink_duration = current_time - start;
                    st2 = st1\<lparr>blink_start_time := None\<rparr>
                in if current_time - last_blink_time st2 > blink_cooldown st2
                   then blink_action blink_duration (st2\<lparr>last_blink_time := current_time\<rparr>)
                   else (None, st2))
             else (None, st1))"

text \<open>
  A run of the handler over the frames of a session: each frame gives the clock and the
  two values passed in; the result lists what each call returned.
\<close>

fun blink_run ::
  "(real \<times> real \<times> real) list \<Rightarrow> ('m, 's) tracker \<Rightarrow> string option list \<times> ('m, 's) tracker" where
  "blink_run [] st = ([], st)"
| "blink_run ((t, l, r) # frames) st =
     (let (ev, st1) = handle_blink t l r st;
          (evs, st2) = blink_run frames st1
      in (ev # evs, st2))"

section \<open>Scrolling and smoothing\<close>

text \<open>
  \<open>handle_scroll\<close> returns the amount it scrolls by. The screen's height is positive; the
  division is not guarded in the source.
\<close>

definition handle_scroll :: "real \<Rightarrow> ('m, 's) tracker \<Rightarrow> int" where
  "handle_scroll y_position st =
     (if mode st = Scroll then
        (let center_region = 0.3 :: real;
             scroll_speed_factor = 0.5 :: real;
             normalized_y = y_position / real_of_int (screen_height st)
         in if normalized_y < 0.5 - center_region / 2 then
              py_int (20 * ((0.5 - center_region / 2) - normalized_y) * scroll_speed_factor)
            else if normalized_y > 0.5 + center_region / 2 then
              py_int (- 20 * (normalized_y - (0.5 + center_region / 2)) * scroll_speed_factor)
            else 0)
      else 0)"

text \<open>The values \<open>smooth_movement\<close> computes on a call that is not the first.\<close>

definition edge_distance :: "('m, 's) tracker \<Rightarrow> real \<Rightarrow> real \<Rightarrow> real" where
  "edge_distance st x_pred y_pred =
     (let edge_distance_x =
            min x_pred (real_of_int (screen_width st) - x_pred) / (real_of_int (screen_width st) / 2);
          edge_distance_y =
            min y_pred (real_of_int (screen_height st) - y_pred) / (real_of_int (screen_height st) / 2)
      in min edge_distance_x edge_distance_y)"

definition adjusted_smoothing :: "('m, 's) tracker \<Rightarrow> real \<Rightarrow> real \<Rightarrow> real" where
  "adjusted_smoothing st x_pred y_pred = smoothing_factor st * edge_distance st x_pred y_pred"

definition smooth_movement ::
  "real \<Rightarrow> real \<Rightarrow> ('m, 's) tracker \<Rightarrow> (real \<times> real) \<times> ('m, 's) tracker" where
  "smooth_movement x_pred y_pred st =
     (case prev st of
        None \<Rightarrow> ((x_pred, y_pred), st\<lparr>prev := Some (x_pred, y_pred)\<rparr>)
      | Some (prev_x, prev_y) \<Rightarrow>
          (let a = adjusted_smoothing st x_pred y_pred;
               smooth_x = prev_x * a + x_pred * (1 - a);
               smooth_y = prev_y * a + y_pred * (1 - a)
           in ((smooth_x, smooth_y), st\<lparr>prev := Some (smooth_x, smooth_y)\<rparr>)))"

section \<open>Example inputs\<close>

text \<open>
  A library instance for the examples: the stable argsort, fits that always succeed, a
  fitted scaler or regressor standing for the data it was fitted on, and scaling that
  leaves the rows as they are.
\<close>

definition stable_argsort :: "npfloat list \<Rightarrow> nat list" where
  "stable_argsort ds = map fst (foldr (insort_by snd) (zip [0 ..< length ds] ds) [])"

type_synonym ex_model = "npfloat list list \<times> int list"

type_synonym ex_scaler = "npfloat list list"

definition example_library :: "(ex_model, ex_scaler) library" where
  "example_library =
     \<lparr>argsort = stable_argsort,
      scaler_fit_transform = (\<lambda>X. Inr (X, X)),
      gbr_fit = (\<lambda>X y. Inr (X, y))\<rparr>"

text \<open>A new tracker on a 1920 by 1080 screen, constructed at clock 0.\<close>

definition example_tracker :: "(ex_model, ex_scaler) tracker" where
  "example_tracker = init_tracker 1920 1080 0 []"

text \<open>A frame whose landmarks all coincide: every eye width and the face width are 0.\<close>

definition collapsed_frame :: landmarks where
  "collapsed_frame i = \<lparr>lm_x = 0.5, lm_y = 0.5, lm_z = 0\<rparr>"

text \<open>The landmarks of the turns in which the detector found a face, in order.\<close>

fun faces :: "frame_obs list \<Rightarrow> landmarks list" where
  "faces [] = []"
| "faces (Face lms # turns) = lms # faces turns"
| "faces (_ # turns) = faces turns"

text \<open>
  Sampling turns for nine targets: the first five (or six) targets see the open-eye frame
  in eleven turns, the others see no face.
\<close>

definition five_good_targets :: "nat \<Rightarrow> frame_obs list" where
  "five_good_targets idx =
     (if idx < 5 then replicate 11 (Face open_eye_frame) else [ReadFailed, NoFace])"

definition six_good_targets :: "nat \<Rightarrow> frame_obs list" where
  "six_good_targets idx =
     (if idx < 6 then replicate 11 (Face open_eye_frame) else [ReadFailed, NoFace])"

text \<open>
  A library instance that checks its input as scikit-learn does: the scaler accepts
  \<open>nan\<close> and refuses a row holding \<open>inf\<close> or \<open>-inf\<close>, the regressor refuses a row holding
  any value that is not finite, both with a \<open>ValueError\<close>. Otherwise it is the example
  library.
\<close>

fun is_finite :: "npfloat \<Rightarrow> bool" where
  "is_finite (Fin a) = True"
| "is_finite v = False"

definition checking_library :: "(ex_model, ex_scaler) library" where
  "checking_library =
     \<lparr>argsort = stable_argsort,
      scaler_fit_transform =
        (\<lambda>X. if list_ex (list_ex (\<lambda>v. v = PInf \<or> v = NInf)) X then Inl ValueError
             else Inr (X, X)),
      gbr_fit = (\<lambda>X y. if list_all (list_all is_finite) X then Inr (X, y) else Inl ValueError)\<rparr>"

text \<open>
  Sampling turns for nine targets of which the first six see the collapsed frame in
  eleven turns, and the feature vector of the collapsed frame.
\<close>

definition six_collapsed_targets :: "nat \<Rightarrow> frame_obs list" where
  "six_collapsed_targets idx =
     (if idx < 6 then replicate 11 (Face collapsed_frame) else [ReadFailed, NoFace])"

definition collapsed_features :: "npfloat list" where
  "collapsed_features =
     [Fin 0.5, Fin 0.5, Fin 0.5, Fin 0.5, Fin 0.5, Fin 0.5, Fin 0.5, Fin 0.5, NaN, NaN,
      Fin 0, Fin 0, Fin 0.5, Fin 0.5, Fin 0.5, Fin 0.5, Fin 0, Fin 0, NaN, NaN, Fin 0]"

text \<open>The example tracker after a first call of the smoother at the screen's centre.\<close>

definition centred_tracker :: "(ex_model, ex_scaler) tracker" where
  "centred_tracker = example_tracker\<lparr>prev := Some (960, 540)\<rparr>"

text \<open>The example tracker in scroll mode.\<close>

definition scroll_tracker :: "(ex_model, ex_scaler) tracker" where
  "scroll_tracker = example_tracker\<lparr>mode := Scroll\<rparr>"

text \<open>
  The amount \<open>handle_scroll\<close> computes before it truncates, as a function of the
  normalised height.
\<close>

definition scroll_raw :: "real \<Rightarrow> real" where
  "scroll_raw n =
     (if n < 0.5 - 0.3 / 2 then 20 * ((0.5 - 0.3 / 2) - n) * 0.5
      else if n > 0.5 + 0.3 / 2 then - 20 * (n - (0.5 + 0.3 / 2)) * 0.5
      else 0)"

section \<open>Notions for the blink handler's properties\<close>

text \<open>The number of values in the history; 0 while the attribute does not exist.\<close>

definition history_size :: "('m, 's) tracker \<Rightarrow> nat" where
  "history_size st = (case ear_history st of None \<Rightarrow> 0 | Some h \<Rightarrow> length h)"

text \<open>\<open>spaced c ts\<close>: each time of the list is more than \<open>c\<close> after the one before it.\<close>

fun spaced :: "real \<Rightarrow> real list \<Rightarrow> bool" where
  "spaced c (a # b # ts) = (c < b - a \<and> spaced c (b # ts))"
| "spaced c ts = True"

text \<open>The clock values of the frames at which a run returned an event.\<close>

definition event_times :: "(real \<times> real \<times> real) list \<Rightarrow> string option list \<Rightarrow> real list" where
  "event_times frames events =
     map (\<lambda>(f, e). fst f) (filter (\<lambda>(f, e). e \<noteq> None) (zip frames events))"

text \<open>
  The example tracker in the middle of a blink that began at clock 10; in drag mode; and
  in relative blink mode (reduction threshold 0.2) with a given history.
\<close>

definition blinking_tracker :: "(ex_model, ex_scaler) tracker" where
  "blinking_tracker = example_tracker\<lparr>blink_start_time := Some 10\<rparr>"

definition drag_tracker :: "(ex_model, ex_scaler) tracker" where
  "drag_tracker = example_tracker\<lparr>mode := Drag\<rparr>"

definition relative_tracker :: "real list \<Rightarrow> (ex_model, ex_scaler) tracker" where
  "relative_tracker h = example_tracker
     \<lparr>blink_relative := Some \<lparr>blink_relative_mode = True, blink_baseline = 0.3,
                               blink_relative_threshold = 0.2\<rparr>,
      ear_history := Some h\<rparr>"

section \<open>The feature vector's layout\<close>

lemma norm2_same_x: "norm2 (a, b) (a, c) = \<bar>b - c\<bar>"
  by (simp add: norm2_def)

lemma norm2_same_y: "norm2 (a, c) (b, c) = \<bar>a - b\<bar>"
  by (simp add: norm2_def)

lemma length_extract_eye_features: "length (extract_eye_features lms) = 21"
  by (simp add: extract_eye_features_def)

lemma frame_blink_inputs_layout:
  "frame_blink_inputs lms = Inr (Fin (lm_y (lms 199)), Fin (head_pitch lms))"
  by (simp add: frame_blink_inputs_def py_get_def extract_eye_features_def)

lemma left_ear_open_eye_frame: "left_ear open_eye_frame = Fin (3 / 10)"
  by (simp add: left_ear_def calculate_eye_aspect_ratio_def left_eye_landmarks_def
      LEFT_EYE_def xy_def open_eye_frame_def norm2_same_x norm2_same_y)

lemma right_ear_open_eye_frame: "right_ear open_eye_frame = Fin (3 / 10)"
  by (simp add: right_ear_def calculate_eye_aspect_ratio_def right_eye_landmarks_def
      RIGHT_EYE_def xy_def open_eye_frame_def norm2_same_x norm2_same_y)

lemma head_pitch_open_eye_frame: "head_pitch open_eye_frame = arctan 3"
  by (simp add: head_pitch_def chin_def nose_tip_def xyz_def open_eye_frame_def np_arctan2_def)

text \<open>
  C1. The claim: the two values the control loop passes to the blink handler, read at
  positions \<open>-6\<close> and \<open>-5\<close> of the feature vector, are the frame's left and right eye
  aspect ratio. The vector has 21 components and the ratios stand at positions 8 and 9
  (\<open>-13\<close> and \<open>-12\<close>); positions \<open>-6\<close> and \<open>-5\<close> hold the chin's height and the head
  pitch. On the open-eye frame the handler receives 0.8 and \<open>arctan 3\<close> where the eye
  aspect ratios are both 0.3.
\<close>

theorem blink_inputs_are_not_the_ears:
  "frame_blink_inputs open_eye_frame = Inr (Fin (4 / 5), Fin (arctan 3))
   \<and> left_ear open_eye_frame = Fin (3 / 10)
   \<and> right_ear open_eye_frame = Fin (3 / 10)
   \<and> py_get (extract_eye_features open_eye_frame) (- 13) = Inr (left_ear open_eye_frame)
   \<and> py_get (extract_eye_features open_eye_frame) (- 12) = Inr (right_ear open_eye_frame)
   \<and> Fin (4 / 5) \<noteq> left_ear open_eye_frame
   \<and> Fin (arctan 3) \<noteq> right_ear open_eye_frame"
proof -
  have a: "frame_blink_inputs open_eye_frame = Inr (Fin (4 / 5), Fin (arctan 3))"
    by (simp add: frame_blink_inputs_layout head_pitch_open_eye_frame) (simp add: open_eye_frame_def)
  have b: "py_get (extract_eye_features open_eye_frame) (- 13) = Inr (left_ear open_eye_frame)"
    by (simp add: py_get_def extract_eye_features_def)
  have c: "py_get (extract_eye_features open_eye_frame) (- 12) = Inr (right_ear open_eye_frame)"
    by (simp add: py_get_def extract_eye_features_def)
  have "arctan 1 < arctan 3"
    by (simp add: arctan_less_iff)
  then have d: "arctan 3 \<noteq> 3 / 10"
    using pi_ge_two by (simp add: arctan_one)
  show ?thesis
    using a b c d by (simp add: left_ear_open_eye_frame right_ear_open_eye_frame)
qed

section \<open>Sampling and degenerate frames\<close>

lemma sample_point_acc: "sample_point turns pd = pd @ map extract_eye_features (faces turns)"
  by (induction turns pd rule: sample_point.induct) simp_all

lemma faces_replicate_Face: "faces (replicate n (Face lms)) = replicate n lms"
  by (induction n) simp_all

lemma extract_collapsed_frame:
  "extract_eye_features collapsed_frame =
     [Fin 0.5, Fin 0.5, Fin 0.5, Fin 0.5, Fin 0.5, Fin 0.5, Fin 0.5, Fin 0.5, NaN, NaN,
      Fin 0, Fin 0, Fin 0.5, Fin 0.5, Fin 0.5, Fin 0.5, Fin 0, Fin 0, NaN, NaN, Fin 0]"
  by (simp add: extract_eye_features_def left_eye_center_def right_eye_center_def mean2_def
      left_iris_def right_iris_def LEFT_IRIS_def RIGHT_IRIS_def xy_def xyz_def collapsed_frame_def
      left_ear_def right_ear_def calculate_eye_aspect_ratio_def left_eye_landmarks_def
      right_eye_landmarks_def LEFT_EYE_def RIGHT_EYE_def norm2_def norm3_def
      left_iris_to_corner_def right_iris_to_corner_def head_pitch_def head_yaw_def chin_def
      nose_tip_def left_eye_left_def right_eye_right_def np_arctan2_def face_width_def
      left_iris_rel_x_def right_iris_rel_x_def)

text \<open>
  C2, as amended. Feature extraction has no failure path: every turn of the sampling loop
  in which the detector finds a face appends one feature vector of 21 components to the
  target's data, whatever the eye widths and the face width are; only the turns without
  a frame or without a face are skipped.
\<close>

theorem every_face_frame_is_sampled:
  "sample_point turns [] = map extract_eye_features (faces turns)
   \<and> list_all (\<lambda>features. length features = 21) (sample_point turns [])"
  by (simp add: sample_point_acc list_all_iff length_extract_eye_features)

text \<open>The amended claim on four turns, two of them with a face.\<close>

theorem every_face_frame_is_sampled_witness:
  "sample_point [ReadFailed, Face collapsed_frame, NoFace, Face open_eye_frame] []
     = [extract_eye_features collapsed_frame, extract_eye_features open_eye_frame]"
  using every_face_frame_is_sampled
    [of "[ReadFailed, Face collapsed_frame, NoFace, Face open_eye_frame]"]
  by simp

text \<open>
  C2 as stated fails on the collapsed frame: both eye widths and the face width are 0,
  yet the extraction returns a vector (its four quotients are \<open>nan\<close>) and the sampling
  loop keeps it.
\<close>

theorem degenerate_frame_is_not_skipped:
  "norm2 (take 9 (left_eye_landmarks collapsed_frame) ! 0)
         (take 9 (left_eye_landmarks collapsed_frame) ! 8) = 0
   \<and> norm2 (take 9 (right_eye_landmarks collapsed_frame) ! 0)
           (take 9 (right_eye_landmarks collapsed_frame) ! 8) = 0
   \<and> face_width collapsed_frame = 0
   \<and> extract_eye_features collapsed_frame =
     [Fin 0.5, Fin 0.5, Fin 0.5, Fin 0.5, Fin 0.5, Fin 0.5, Fin 0.5, Fin 0.5, NaN, NaN,
      Fin 0, Fin 0, Fin 0.5, Fin 0.5, Fin 0.5, Fin 0.5, Fin 0, Fin 0, NaN, NaN, Fin 0]
   \<and> sample_point [Face collapsed_frame] [] = [extract_eye_features collapsed_frame]"
proof -
  have a: "norm2 (take 9 (left_eye_landmarks collapsed_frame) ! 0)
                 (take 9 (left_eye_landmarks collapsed_frame) ! 8) = 0"
    by (simp add: left_eye_landmarks_def LEFT_EYE_def xy_def collapsed_frame_def norm2_def)
  have b: "norm2 (take 9 (right_eye_landmarks collapsed_frame) ! 0)
                 (take 9 (right_eye_landmarks collapsed_frame) ! 8) = 0"
    by (simp add: right_eye_landmarks_def RIGHT_EYE_def xy_def collapsed_frame_def norm2_def)
  have c: "face_width collapsed_frame = 0"
    by (simp add: face_width_def norm3_def right_eye_right_def left_eye_left_def xyz_def
        collapsed_frame_def)
  have d: "sample_point [Face collapsed_frame] [] = [extract_eye_features collapsed_frame]"
    by simp
  show ?thesis using a b c d extract_collapsed_frame by blast
qed

section \<open>The calibration targets\<close>

lemma offer_row:
  "foldl (\<lambda>pts y. if int (length pts) < n then pts @ [f y] else pts) pts ys
     = pts @ take (nat n - length pts) (map f ys)"
proof (induction ys arbitrary: pts)
  case Nil
  then show ?case by simp
next
  case (Cons y ys)
  show ?case
  proof (cases "int (length pts) < n")
    case True
    then have "nat n - length pts = Suc (nat n - Suc (length pts))" by linarith
    then show ?thesis using True by (simp add: Cons.IH)
  next
    case False
    then have "nat n - length pts = 0" by linarith
    then show ?thesis using False by (simp add: Cons.IH)
  qed
qed

lemma append_rows:
  "foldl (\<lambda>pts x. pts @ take (k - length pts) (row x)) pts xs
     = pts @ take (k - length pts) (concat (map row xs))"
proof (induction xs arbitrary: pts)
  case Nil
  then show ?case by simp
next
  case (Cons x xs)
  have "k - length (pts @ take (k - length pts) (row x)) = k - length pts - length (row x)"
    by (simp add: min_def)
  then show ?case
    by (simp add: Cons.IH)
qed

text \<open>The nested loops list the first \<open>num_points\<close> pairs, row by row.\<close>

lemma make_calibration_points_take:
  "make_calibration_points w h n
     = take (nat n)
         (concat (map (\<lambda>x. map (\<lambda>y. (py_int x, py_int y)) (y_points w h)) (x_points w)))"
  unfolding make_calibration_points_def
  using append_rows
    [of "nat n" "\<lambda>x. map (\<lambda>y. (py_int x, py_int y)) (y_points w h)" "[]" "x_points w"]
  by (simp add: offer_row)

lemma nine_targets: "make_calibration_points 1920 1080 9 =
  [(192, 108), (192, 216), (192, 324), (192, 432), (192, 540), (192, 648), (192, 756),
   (192, 864), (192, 972)]"
  by (simp add: make_calibration_points_take x_points_def y_points_def py_int_def)

text \<open>
  With ten targets or more, the tenth target's height is 95 percent of the screen's
  width, on every screen.
\<close>

lemma tenth_target:
  "10 \<le> n \<Longrightarrow>
   make_calibration_points w h n ! 9
     = (py_int (real_of_int w * 0.1), py_int (real_of_int w * 0.95))"
proof -
  assume "10 \<le> n"
  then have "nat n = Suc (Suc (Suc (Suc (Suc (Suc (Suc (Suc (Suc (Suc (nat n - 10))))))))))"
    by linarith
  then show ?thesis
    by (simp add: make_calibration_points_take x_points_def y_points_def)
qed

text \<open>
  C5. The claim: every generated target has its \<open>x\<close> at a fixed fraction of the screen's
  width and its \<open>y\<close> at a fixed fraction of the screen's height, so every target lies on
  the screen. The last entry of \<open>y_points\<close> is \<open>screen_width * 0.95\<close>: on a 1920 by 1080
  screen the full calibration's 16 targets include \<open>(192, 1824)\<close>, below the screen's
  lower edge.
\<close>

theorem tenth_target_leaves_the_screen:
  "make_calibration_points 1920 1080 16 =
     [(192, 108), (192, 216), (192, 324), (192, 432), (192, 540), (192, 648), (192, 756),
      (192, 864), (192, 972), (192, 1824), (384, 108), (384, 216), (384, 324), (384, 432),
      (384, 540), (384, 648)]
   \<and> snd (make_calibration_points 1920 1080 16 ! 9) > 1080"
  by (simp add: make_calibration_points_take x_points_def y_points_def py_int_def)

section \<open>Samples per target and the fit\<close>

lemma calibrate_target_keeps_models:
  "model_x (calibrate_target lib p turns st) = model_x st
   \<and> model_y (calibrate_target lib p turns st) = model_y st
   \<and> scaler (calibrate_target lib p turns st) = scaler st"
  by (simp add: calibrate_target_def Let_def)

lemma calibrate_targets_keeps_models:
  "model_x (calibrate_targets lib turns_of i ps st) = model_x st
   \<and> model_y (calibrate_targets lib turns_of i ps st) = model_y st
   \<and> scaler (calibrate_targets lib turns_of i ps st) = scaler st"
  by (induction ps arbitrary: i st) (simp_all add: calibrate_target_keeps_models)

lemma after_targets_keeps_models:
  "model_x (after_targets lib turns_of n st) = model_x st
   \<and> model_y (after_targets lib turns_of n st) = model_y st
   \<and> scaler (after_targets lib turns_of n st) = scaler st"
  by (simp add: after_targets_def Let_def calibrate_targets_keeps_models)

lemma calibrate_target_count:
  "length (calibration_data (calibrate_target lib p turns st))
     = length (calibration_data st) + (if 10 < length (faces turns) then 1 else 0)"
  by (simp add: calibrate_target_def Let_def sample_point_acc)

text \<open>The calibration adds one sample for each target with more than ten valid frames.\<close>

lemma calibrate_targets_count:
  "length (calibration_data (calibrate_targets lib turns_of i ps st))
     = length (calibration_data st)
       + length (filter (\<lambda>k. 10 < length (faces (turns_of k))) [i ..< i + length ps])"
proof (induction ps arbitrary: i st)
  case Nil
  then show ?case by simp
next
  case (Cons p ps)
  have "[i ..< i + length (p # ps)] = i # [Suc i ..< Suc i + length ps]"
    by (simp add: upt_rec)
  then show ?case
    by (simp add: Cons.IH calibrate_target_count)
qed

lemma after_targets_count:
  "length (calibration_data (after_targets lib turns_of n st))
     = length (calibration_data st)
       + length (filter (\<lambda>k. 10 < length (faces (turns_of k)))
           [0 ..< length (make_calibration_points (screen_width st) (screen_height st) n)])"
  by (simp add: after_targets_def Let_def calibrate_targets_count)

lemma five_good_targets_count:
  "length (calibration_data
     (after_targets example_library five_good_targets 9 example_tracker)) = 5"
proof -
  have u: "[0 ..< 9] = [0, 1, 2, 3, 4, 5, 6, 7, 8]" by (simp add: upt_rec)
  show ?thesis
    by (simp add: after_targets_count example_tracker_def init_tracker_def nine_targets u
        five_good_targets_def faces_replicate_Face)
qed

lemma six_good_targets_count:
  "length (calibration_data
     (after_targets example_library six_good_targets 9 example_tracker)) = 6"
proof -
  have u: "[0 ..< 9] = [0, 1, 2, 3, 4, 5, 6, 7, 8]" by (simp add: upt_rec)
  show ?thesis
    by (simp add: after_targets_count example_tracker_def init_tracker_def nine_targets u
        six_good_targets_def faces_replicate_Face)
qed

lemma concat_heads_replicate:
  "concat (map (case_list [] (\<lambda>h t. [h])) (replicate n (x # xs))) = replicate n x"
  by (induction n) simp_all

lemma concat_tails_replicate:
  "concat (map (case_list [] (\<lambda>h t. [t])) (replicate n (x # xs))) = replicate n xs"
  by (induction n) simp_all

lemma transpose_replicate_Nil: "transpose (replicate n []) = []"
  by (induction n) simp_all

lemma transpose_replicate: "transpose (replicate (Suc n) xs) = map (replicate (Suc n)) xs"
proof (induction xs)
  case Nil
  then show ?case by (simp add: transpose_replicate_Nil)
next
  case (Cons x xs)
  have "transpose (replicate (Suc n) (x # xs))
      = (x # replicate n x) # transpose (xs # replicate n xs)"
    by (simp add: concat_heads_replicate concat_tails_replicate)
  then show ?case using Cons.IH by simp
qed

lemma np_sort_replicate: "v \<noteq> NaN \<Longrightarrow> np_sort (replicate n v) = replicate n v"
proof (induction n)
  case 0
  then show ?case by (simp add: np_sort_def)
next
  case (Suc n)
  have le: "np_le v v" using Suc.prems by (cases v) simp_all
  have "insort_by (\<lambda>v. v) v (replicate n v) = v # replicate n v"
    using le by (cases n) simp_all
  then show ?case using Suc by (simp add: np_sort_def)
qed

lemma np_median_replicate_11: "np_median (replicate 11 v) = v"
proof (cases "v = NaN")
  case True
  then show ?thesis by (simp add: np_median_def Let_def)
next
  case False
  then show ?thesis by (simp add: np_median_def Let_def np_sort_replicate)
qed

lemma median_collapsed:
  "median_features (replicate 11 collapsed_features) = collapsed_features"
proof -
  have "replicate 11 collapsed_features = replicate (Suc 10) collapsed_features" by simp
  then have "transpose (replicate 11 collapsed_features) = map (replicate 11) collapsed_features"
    using transpose_replicate [of 10 collapsed_features] by simp
  then show ?thesis
    by (simp add: median_features_def np_median_replicate_11 map_idI)
qed

lemma distances_collapsed:
  "distances (replicate 11 collapsed_features) = replicate 11 NaN"
  by (simp add: distances_def median_collapsed) (simp add: collapsed_features_def np_sum_def np_sub_def)

lemma stable_argsort_nan: "stable_argsort (replicate 11 NaN) = [0, 1, 2, 3, 4, 5, 6, 7, 8, 9, 10]"
  by (simp add: stable_argsort_def eval_nat_numeral upt_rec)

lemma filtered_collapsed:
  "filtered_data checking_library (replicate 11 collapsed_features) = replicate 8 collapsed_features"
  by (simp add: filtered_data_def keep_indices_def distances_collapsed checking_library_def
      stable_argsort_nan py_int_def) (simp add: eval_nat_numeral)

lemma np_mean_replicate_8:
  "np_mean (replicate 8 (Fin a)) = Fin a" "np_mean (replicate 8 NaN) = NaN"
  by (simp_all add: np_mean_def np_sum_def eval_nat_numeral)

lemma avg_collapsed:
  "avg_features checking_library (replicate 11 collapsed_features) = collapsed_features"
proof -
  have "replicate 8 collapsed_features = replicate (Suc 7) collapsed_features" by simp
  then have "transpose (replicate 8 collapsed_features) = map (replicate 8) collapsed_features"
    using transpose_replicate [of 7 collapsed_features] by simp
  then show ?thesis
    by (simp add: avg_features_def filtered_collapsed)
       (simp add: collapsed_features_def np_mean_replicate_8)
qed


lemma extract_collapsed_features: "extract_eye_features collapsed_frame = collapsed_features"
  by (simp add: extract_collapsed_frame collapsed_features_def)

lemma calibrate_target_data:
  "calibration_data (calibrate_target lib p turns st)
     = calibration_data st
       @ (if 10 < length (faces turns)
          then [(avg_features lib (map extract_eye_features (faces turns)), p)] else [])"
  by (simp add: calibrate_target_def Let_def sample_point_acc)

lemma six_collapsed_data:
  "calibration_data (after_targets checking_library six_collapsed_targets 9 example_tracker)
     = [(collapsed_features, (192, 108)), (collapsed_features, (192, 216)),
        (collapsed_features, (192, 324)), (collapsed_features, (192, 432)),
        (collapsed_features, (192, 540)), (collapsed_features, (192, 648))]"
proof -
  show ?thesis
    by (simp add: after_targets_def Let_def calibrate_target_data example_tracker_def
        init_tracker_def nine_targets six_collapsed_targets_def faces_replicate_Face
        extract_collapsed_features avg_collapsed)
qed

lemma six_collapsed_scaler:
  "scaler_fit_transform checking_library (replicate 6 collapsed_features)
     = Inr (replicate 6 collapsed_features, replicate 6 collapsed_features)"
  by (simp add: checking_library_def eval_nat_numeral collapsed_features_def)

lemma six_collapsed_fit:
  "gbr_fit checking_library (replicate 6 collapsed_features) ys = Inl ValueError"
  by (simp add: checking_library_def eval_nat_numeral collapsed_features_def)

lemma six_collapsed_raise:
  "calibrate checking_library True six_collapsed_targets 9 example_tracker = Inl ValueError"
proof -
  have r: "map fst (calibration_data (after_targets checking_library six_collapsed_targets 9 example_tracker))
       = replicate 6 collapsed_features"
    by (simp add: six_collapsed_data eval_nat_numeral)
  have n: "length (calibration_data (after_targets checking_library six_collapsed_targets 9 example_tracker)) = 6"
    by (simp add: six_collapsed_data)
  show ?thesis
    by (simp add: calibrate_def train_models_def Let_def n r six_collapsed_scaler six_collapsed_fit)
qed

text \<open>
  C3, as amended. When the camera opens and the last target is done: with exactly 5
  samples in the calibration set, \<open>calibrate\<close> returns \<open>False\<close> and the two regressors and
  the scaler are the ones the tracker had before the call; with exactly 6 samples the fit
  is attempted on the set: when the scaler's fit and both regressors' fits return, the
  scaler and both regressors are stored and \<open>calibrate\<close> returns \<open>True\<close>; when one of the
  three raises, the exception leaves \<open>calibrate\<close> and no model results.
\<close>

theorem calibrate_needs_six_samples:
  fixes lib :: "('m, 's) library" and st :: "('m, 's) tracker"
    and turns_of :: "nat \<Rightarrow> frame_obs list" and n :: int
  defines "st1 \<equiv> after_targets lib turns_of n st"
  defines "X \<equiv> map fst (calibration_data st1)"
  defines "y_x \<equiv> map (\<lambda>d. fst (snd d)) (calibration_data st1)"
  defines "y_y \<equiv> map (\<lambda>d. snd (snd d)) (calibration_data st1)"
  assumes "camera_opens"
  shows
  "(length (calibration_data st1) = 5 \<longrightarrow>
      calibrate lib camera_opens turns_of n st = Inr (False, st1)
      \<and> model_x st1 = model_x st \<and> model_y st1 = model_y st \<and> scaler st1 = scaler st)
   \<and> (length (calibration_data st1) = 6 \<and> scaler_fit_transform lib X = Inr (sc, X_scaled)
        \<and> gbr_fit lib X_scaled y_x = Inr mx \<and> gbr_fit lib X_scaled y_y = Inr my
      \<longrightarrow> calibrate lib camera_opens turns_of n st
            = Inr (True, st1\<lparr>scaler := sc, model_x := Some mx, model_y := Some my\<rparr>))
   \<and> (length (calibration_data st1) = 6 \<and> scaler_fit_transform lib X = Inl e
      \<longrightarrow> calibrate lib camera_opens turns_of n st = Inl e)
   \<and> (length (calibration_data st1) = 6 \<and> scaler_fit_transform lib X = Inr (sc, X_scaled)
        \<and> gbr_fit lib X_scaled y_x = Inl e
      \<longrightarrow> calibrate lib camera_opens turns_of n st = Inl e)
   \<and> (length (calibration_data st1) = 6 \<and> scaler_fit_transform lib X = Inr (sc, X_scaled)
        \<and> gbr_fit lib X_scaled y_x = Inr mx \<and> gbr_fit lib X_scaled y_y = Inl e
      \<longrightarrow> calibrate lib camera_opens turns_of n st = Inl e)"
  using assms(5) unfolding st1_def X_def y_x_def y_y_def
  by (simp add: calibrate_def train_models_def Let_def after_targets_keeps_models)

text \<open>
  A new tracker calibrated on nine targets: with five good targets the call fails and
  the tracker still has no model; with six it holds both regressors and the scaler; with
  six targets that saw the collapsed frame the regressor's fit raises.
\<close>

theorem calibrate_needs_six_samples_witness:
  "calibrate example_library True five_good_targets 9 example_tracker
     = Inr (False, after_targets example_library five_good_targets 9 example_tracker)
   \<and> model_x (after_targets example_library five_good_targets 9 example_tracker) = None
   \<and> model_y (after_targets example_library five_good_targets 9 example_tracker) = None
   \<and> scaler (after_targets example_library five_good_targets 9 example_tracker) = []
   \<and> (case calibrate example_library True six_good_targets 9 example_tracker of
         Inl e \<Rightarrow> False
       | Inr (ok, st) \<Rightarrow> ok \<and> model_x st \<noteq> None \<and> model_y st \<noteq> None
            \<and> scaler st = map fst (calibration_data st) \<and> length (calibration_data st) = 6)
   \<and> calibrate checking_library True six_collapsed_targets 9 example_tracker = Inl ValueError"
proof -
  have m: "model_x example_tracker = None \<and> model_y example_tracker = None
           \<and> scaler example_tracker = []"
    by (simp add: example_tracker_def init_tracker_def)
  have a: "calibrate example_library True five_good_targets 9 example_tracker
     = Inr (False, after_targets example_library five_good_targets 9 example_tracker)
   \<and> model_x (after_targets example_library five_good_targets 9 example_tracker) = None
   \<and> model_y (after_targets example_library five_good_targets 9 example_tracker) = None
   \<and> scaler (after_targets example_library five_good_targets 9 example_tracker) = []"
    using calibrate_needs_six_samples [where camera_opens = True and lib = example_library
        and turns_of = five_good_targets and n = 9 and st = example_tracker]
      five_good_targets_count m by simp
  let ?st = "after_targets example_library six_good_targets 9 example_tracker"
  let ?X = "map fst (calibration_data ?st)"
  have b: "calibrate example_library True six_good_targets 9 example_tracker
      = Inr (True, ?st\<lparr>scaler := ?X,
           model_x := Some (?X, map (\<lambda>d. fst (snd d)) (calibration_data ?st)),
           model_y := Some (?X, map (\<lambda>d. snd (snd d)) (calibration_data ?st))\<rparr>)"
    using calibrate_needs_six_samples [where camera_opens = True and lib = example_library
        and turns_of = six_good_targets and n = 9 and st = example_tracker
        and sc = ?X and X_scaled = ?X
        and mx = "(?X, map (\<lambda>d. fst (snd d)) (calibration_data ?st))"
        and my = "(?X, map (\<lambda>d. snd (snd d)) (calibration_data ?st))"]
      six_good_targets_count
    by (simp add: example_library_def)
  let ?ct = "after_targets checking_library six_collapsed_targets 9 example_tracker"
  have n: "length (calibration_data ?ct) = 6"
    and r: "map fst (calibration_data ?ct) = replicate 6 collapsed_features"
    by (simp_all add: six_collapsed_data eval_nat_numeral)
  have c: "calibrate checking_library True six_collapsed_targets 9 example_tracker
      = Inl ValueError"
    using calibrate_needs_six_samples [where camera_opens = True and lib = checking_library
        and turns_of = six_collapsed_targets and n = 9 and st = example_tracker
        and sc = "replicate 6 collapsed_features" and X_scaled = "replicate 6 collapsed_features"
        and e = ValueError]
      n six_collapsed_scaler six_collapsed_fit
    by (simp add: r)
  show ?thesis using a c by (simp add: b six_good_targets_count)
qed

text \<open>
  C3 as stated fails on six samples that hold \<open>nan\<close>. Six targets see the collapsed frame
  in eleven turns each; every frame is kept, the median, the distances and the mean carry
  the \<open>nan\<close> of the four quotients into each averaged sample, the calibration set holds
  exactly 6 samples, and the regressor's fit refuses them: \<open>calibrate\<close> raises and no
  model is fitted.
\<close>

theorem six_nan_samples_fit_no_model:
  "length (calibration_data
      (after_targets checking_library six_collapsed_targets 9 example_tracker)) = 6
   \<and> map fst (calibration_data
        (after_targets checking_library six_collapsed_targets 9 example_tracker))
       = replicate 6 collapsed_features
   \<and> calibrate checking_library True six_collapsed_targets 9 example_tracker = Inl ValueError"
  using six_collapsed_raise by (simp add: six_collapsed_data eval_nat_numeral)

text \<open>
  C4, as amended. A target is reported as failed and leaves the tracker as it was if and
  only if at most 10 valid frames were collected for it; with more than 10, and so from
  11 on, its averaged sample is appended to the calibration set.
\<close>

theorem target_needs_eleven_frames:
  "(length (faces turns) \<le> 10 \<longrightarrow> calibrate_target lib p turns st = st)
   \<and> (length (faces turns) > 10 \<longrightarrow>
        calibration_data (calibrate_target lib p turns st)
          = calibration_data st
            @ [(avg_features lib (map extract_eye_features (faces turns)), p)])"
  by (simp add: calibrate_target_def Let_def sample_point_acc)

text \<open>Nine valid frames give no sample, eleven give one.\<close>

theorem target_needs_eleven_frames_witness:
  "calibrate_target example_library (192, 108) (replicate 9 (Face open_eye_frame) @ [NoFace])
       example_tracker = example_tracker
   \<and> calibration_data (calibrate_target example_library (192, 108)
         (replicate 11 (Face open_eye_frame)) example_tracker)
        = [(avg_features example_library (replicate 11 (extract_eye_features open_eye_frame)),
            (192, 108))]"
proof -
  have f: "faces (replicate 9 (Face open_eye_frame) @ [NoFace]) = replicate 9 open_eye_frame"
    by (simp add: eval_nat_numeral)
  have c: "calibration_data example_tracker = []"
    by (simp add: example_tracker_def init_tracker_def)
  show ?thesis
    using target_needs_eleven_frames
        [of "replicate 9 (Face open_eye_frame) @ [NoFace]" example_library "(192, 108)"
          example_tracker]
      target_needs_eleven_frames
        [of "replicate 11 (Face open_eye_frame)" example_library "(192, 108)" example_tracker]
    by (simp add: f c faces_replicate_Face)
qed

text \<open>
  C4 as stated fails at exactly 10 valid frames: the ten feature vectors are collected
  and the target still contributes no sample.
\<close>

theorem ten_frames_give_no_sample:
  "sample_point (replicate 10 (Face open_eye_frame)) []
     = replicate 10 (extract_eye_features open_eye_frame)
   \<and> calibrate_target example_library (192, 108) (replicate 10 (Face open_eye_frame))
       example_tracker = example_tracker"
  by (simp add: calibrate_target_def sample_point_acc faces_replicate_Face)

section \<open>The smoother\<close>

lemma edge_distance_le_one:
  assumes "0 < screen_width st" "0 < screen_height st"
  shows "edge_distance st x y \<le> 1"
proof -
  let ?w = "real_of_int (screen_width st)"
  have w: "0 < ?w" using assms by simp
  have "min x (?w - x) \<le> ?w / 2" by linarith
  then have "min x (?w - x) / (?w / 2) \<le> 1" using w by (simp add: field_simps)
  then show ?thesis by (simp add: edge_distance_def Let_def min_le_iff_disj)
qed

lemma edge_distance_nonneg_iff:
  assumes "0 < screen_width st" "0 < screen_height st"
  shows "0 \<le> edge_distance st x y \<longleftrightarrow>
     0 \<le> x \<and> x \<le> real_of_int (screen_width st)
     \<and> 0 \<le> y \<and> y \<le> real_of_int (screen_height st)"
proof -
  let ?w = "real_of_int (screen_width st)" and ?h = "real_of_int (screen_height st)"
  have w: "0 < ?w / 2" and h: "0 < ?h / 2" using assms by simp_all
  have a: "0 \<le> min x (?w - x) / (?w / 2) \<longleftrightarrow> 0 \<le> min x (?w - x)"
    using w by (simp add: zero_le_divide_iff)
  have b: "0 \<le> min y (?h - y) / (?h / 2) \<longleftrightarrow> 0 \<le> min y (?h - y)"
    using h by (simp add: zero_le_divide_iff)
  show ?thesis
    unfolding edge_distance_def Let_def min.bounded_iff a b by auto
qed

text \<open>
  C6, as amended. On a call that is not the first, on a screen of positive size and with
  a smoothing factor that is not negative: the normalised edge distance is at most 1 and
  is not clamped from below, so it is at least 0 exactly when the raw coordinate lies on
  the screen; the effective smoothing coefficient is at most the smoothing factor, and
  at least 0 for a raw coordinate on the screen; the output of each axis is the previous
  value times the coefficient plus the raw value times one minus the coefficient, and
  it is stored as the new previous value.
\<close>

theorem smoothing_weight_bounds:
  "0 < screen_width st \<Longrightarrow> 0 < screen_height st \<Longrightarrow> 0 \<le> smoothing_factor st \<Longrightarrow>
   prev st = Some (prev_x, prev_y) \<Longrightarrow>
     edge_distance st x y \<le> 1
   \<and> adjusted_smoothing st x y \<le> smoothing_factor st
   \<and> (0 \<le> edge_distance st x y \<longleftrightarrow>
        0 \<le> x \<and> x \<le> real_of_int (screen_width st)
        \<and> 0 \<le> y \<and> y \<le> real_of_int (screen_height st))
   \<and> (0 \<le> x \<and> x \<le> real_of_int (screen_width st)
        \<and> 0 \<le> y \<and> y \<le> real_of_int (screen_height st)
        \<longrightarrow> 0 \<le> adjusted_smoothing st x y)
   \<and> fst (smooth_movement x y st)
        = (prev_x * adjusted_smoothing st x y + x * (1 - adjusted_smoothing st x y),
           prev_y * adjusted_smoothing st x y + y * (1 - adjusted_smoothing st x y))
   \<and> prev (snd (smooth_movement x y st)) = Some (fst (smooth_movement x y st))"
proof -
  assume w: "0 < screen_width st" and h: "0 < screen_height st"
    and s: "0 \<le> smoothing_factor st" and p: "prev st = Some (prev_x, prev_y)"
  have e1: "edge_distance st x y \<le> 1" using w h by (rule edge_distance_le_one)
  have a1: "adjusted_smoothing st x y \<le> smoothing_factor st"
    using e1 s by (simp add: adjusted_smoothing_def mult_left_le)
  have iff: "0 \<le> edge_distance st x y \<longleftrightarrow>
        0 \<le> x \<and> x \<le> real_of_int (screen_width st)
        \<and> 0 \<le> y \<and> y \<le> real_of_int (screen_height st)"
    using w h by (rule edge_distance_nonneg_iff)
  have a0: "0 \<le> edge_distance st x y \<Longrightarrow> 0 \<le> adjusted_smoothing st x y"
    using s by (simp add: adjusted_smoothing_def)
  have out: "fst (smooth_movement x y st)
        = (prev_x * adjusted_smoothing st x y + x * (1 - adjusted_smoothing st x y),
           prev_y * adjusted_smoothing st x y + y * (1 - adjusted_smoothing st x y))"
    using p by (simp add: smooth_movement_def Let_def)
  have st: "prev (snd (smooth_movement x y st)) = Some (fst (smooth_movement x y st))"
    using p by (simp add: smooth_movement_def Let_def)
  show ?thesis using e1 a1 iff a0 out st by blast
qed

text \<open>
  Half way between the left edge and the centre the coefficient is half the smoothing
  factor, and the cursor moves from 960 to 672 towards the raw 480.
\<close>

theorem smoothing_weight_bounds_witness:
  "edge_distance centred_tracker 480 540 \<le> 1
   \<and> adjusted_smoothing centred_tracker 480 540 \<le> 4 / 5
   \<and> 0 \<le> adjusted_smoothing centred_tracker 480 540
   \<and> fst (smooth_movement 480 540 centred_tracker) = (672, 540)"
proof -
  have e: "adjusted_smoothing centred_tracker 480 540 = 2 / 5"
    by (simp add: centred_tracker_def example_tracker_def init_tracker_def edge_distance_def
        adjusted_smoothing_def)
  show ?thesis
    using smoothing_weight_bounds [of centred_tracker 960 540 480 540]
    by (simp add: e) (simp add: centred_tracker_def example_tracker_def init_tracker_def)
qed

text \<open>
  C6 as stated fails for a raw coordinate left of the screen: at \<open>x = -96\<close> the edge
  distance is \<open>-0.1\<close> and the coefficient \<open>-0.08\<close>, outside \<open>[0, 1]\<close> and
  \<open>[0, smoothing_factor]\<close>.
\<close>

theorem off_screen_edge_distance_is_negative:
  "prev centred_tracker = Some (960, 540)
   \<and> edge_distance centred_tracker (- 96) 540 = - (1 / 10)
   \<and> adjusted_smoothing centred_tracker (- 96) 540 = - (2 / 25)
   \<and> \<not> 0 \<le> edge_distance centred_tracker (- 96) 540
   \<and> \<not> 0 \<le> adjusted_smoothing centred_tracker (- 96) 540"
  by (simp add: centred_tracker_def example_tracker_def init_tracker_def edge_distance_def
      adjusted_smoothing_def)

section \<open>Scrolling\<close>

lemma py_int_nonneg: "0 \<le> a \<Longrightarrow> 0 \<le> py_int a"
  by (simp add: py_int_def)

lemma py_int_nonpos: "a \<le> 0 \<Longrightarrow> py_int a \<le> 0"
  by (simp add: py_int_def ceiling_le_zero)

lemma py_int_mono:
  assumes "a \<le> b"
  shows "py_int a \<le> py_int b"
proof (cases "0 \<le> a")
  case True
  then show ?thesis using assms by (simp add: py_int_def floor_mono)
next
  case False
  show ?thesis
  proof (cases "0 \<le> b")
    case True
    have "py_int a \<le> 0" using False by (simp add: py_int_nonpos)
    moreover have "0 \<le> py_int b" using True by (rule py_int_nonneg)
    ultimately show ?thesis by simp
  next
    case b: False
    show ?thesis using False b assms by (simp add: py_int_def ceiling_mono)
  qed
qed

lemma handle_scroll_raw:
  assumes "mode st = Scroll"
  shows "handle_scroll y st = py_int (scroll_raw (y / real_of_int (screen_height st)))"
proof -
  have z: "py_int 0 = 0" by (simp add: py_int_def)
  show ?thesis
    using assms by (simp add: handle_scroll_def Let_def scroll_raw_def z)
qed

lemma scroll_raw_antimono: "a \<le> b \<Longrightarrow> scroll_raw b \<le> scroll_raw a"
  by (simp add: scroll_raw_def)

lemma scroll_raw_above:
  "n < 7 / 20 \<Longrightarrow> scroll_raw n = 20 * ((0.5 - 0.3 / 2) - n) * 0.5 \<and> 0 \<le> scroll_raw n"
  by (simp add: scroll_raw_def)

lemma scroll_raw_below:
  "13 / 20 < n \<Longrightarrow> scroll_raw n = - 20 * (n - (0.5 + 0.3 / 2)) * 0.5 \<and> scroll_raw n \<le> 0"
  by (simp add: scroll_raw_def)

lemma scroll_raw_inside: "7 / 20 \<le> n \<Longrightarrow> n \<le> 13 / 20 \<Longrightarrow> scroll_raw n = 0"
  by (simp add: scroll_raw_def)

text \<open>
  C10, as amended. In scroll mode, on a screen of positive height: a vertical coordinate
  inside the deadzone (from 35 to 65 percent of the height) yields 0; above the deadzone
  the amount is the truncation of 10 times the normalised distance from the deadzone's
  edge and is not negative; below it the amount is the truncation of minus 10 times that
  distance and is not positive; and the amount never increases as the coordinate moves
  down, so its magnitude never decreases as the distance from the deadzone's edge grows.
\<close>

theorem scroll_amount_signs:
  "mode st = Scroll \<Longrightarrow> 0 < screen_height st \<Longrightarrow>
     (7 / 20 * real_of_int (screen_height st) \<le> y \<and> y \<le> 13 / 20 * real_of_int (screen_height st)
        \<longrightarrow> handle_scroll y st = 0)
   \<and> (y < 7 / 20 * real_of_int (screen_height st) \<longrightarrow>
        handle_scroll y st
          = py_int (20 * ((0.5 - 0.3 / 2) - y / real_of_int (screen_height st)) * 0.5)
        \<and> 0 \<le> handle_scroll y st)
   \<and> (13 / 20 * real_of_int (screen_height st) < y \<longrightarrow>
        handle_scroll y st
          = py_int (- 20 * (y / real_of_int (screen_height st) - (0.5 + 0.3 / 2)) * 0.5)
        \<and> handle_scroll y st \<le> 0)
   \<and> (y \<le> y' \<longrightarrow> handle_scroll y' st \<le> handle_scroll y st)"
proof -
  assume m: "mode st = Scroll" and h: "0 < screen_height st"
  let ?h = "real_of_int (screen_height st)"
  have hp: "0 < ?h" using h by simp
  have lo: "y < 7 / 20 * ?h \<Longrightarrow> y / ?h < 7 / 20"
    using hp by (simp add: field_simps)
  have hi: "13 / 20 * ?h < y \<Longrightarrow> 13 / 20 < y / ?h"
    using hp by (simp add: field_simps)
  have mid: "7 / 20 * ?h \<le> y \<Longrightarrow> y \<le> 13 / 20 * ?h
      \<Longrightarrow> 7 / 20 \<le> y / ?h \<and> y / ?h \<le> 13 / 20"
    using hp by (simp add: field_simps)
  have z: "py_int 0 = 0" by (simp add: py_int_def)
  have a: "7 / 20 * ?h \<le> y \<and> y \<le> 13 / 20 * ?h \<longrightarrow> handle_scroll y st = 0"
    using mid scroll_raw_inside [of "y / ?h"] z by (auto simp only: handle_scroll_raw [OF m])
  have b: "y < 7 / 20 * ?h \<longrightarrow>
        handle_scroll y st = py_int (20 * ((0.5 - 0.3 / 2) - y / ?h) * 0.5)
        \<and> 0 \<le> handle_scroll y st"
    using lo scroll_raw_above [of "y / ?h"] py_int_nonneg [of "scroll_raw (y / ?h)"]
    by (auto simp only: handle_scroll_raw [OF m])
  have c: "13 / 20 * ?h < y \<longrightarrow>
        handle_scroll y st = py_int (- 20 * (y / ?h - (0.5 + 0.3 / 2)) * 0.5)
        \<and> handle_scroll y st \<le> 0"
    using hi scroll_raw_below [of "y / ?h"] py_int_nonpos [of "scroll_raw (y / ?h)"]
    by (auto simp only: handle_scroll_raw [OF m])
  have d: "y \<le> y' \<longrightarrow> handle_scroll y' st \<le> handle_scroll y st"
  proof
    assume "y \<le> y'"
    then have "y / ?h \<le> y' / ?h" using hp by (simp add: divide_right_mono)
    then show "handle_scroll y' st \<le> handle_scroll y st"
      unfolding handle_scroll_raw [OF m] by (intro py_int_mono scroll_raw_antimono)
  qed
  show ?thesis using a b c d by blast
qed

text \<open>
  On the 1080 pixel screen: the centre scrolls by 0, the height 50 by 3, the height 1030
  by \<open>-3\<close>, and the top edge scrolls at least as much as the height 50.
\<close>

theorem scroll_amount_signs_witness:
  "handle_scroll 540 scroll_tracker = 0
   \<and> handle_scroll 50 scroll_tracker = 3
   \<and> handle_scroll 1030 scroll_tracker = - 3
   \<and> handle_scroll 50 scroll_tracker \<le> handle_scroll 0 scroll_tracker"
proof -
  have m: "mode scroll_tracker = Scroll" and h: "0 < screen_height scroll_tracker"
    and hv: "screen_height scroll_tracker = 1080"
    by (simp_all add: scroll_tracker_def example_tracker_def init_tracker_def)
  show ?thesis
    using scroll_amount_signs [OF m h, of 540 540] scroll_amount_signs [OF m h, of 50 50]
      scroll_amount_signs [OF m h, of 1030 1030] scroll_amount_signs [OF m h, of 0 50]
    by (simp add: hv py_int_def)
qed

text \<open>
  C10 as stated fails just above the deadzone: at 30 percent of the height (324 of 1080)
  the coordinate is above the deadzone and the amount is 0, not positive; and the
  amounts at 200 and at 180 are both 1 (at 880 and at 900 both \<open>-1\<close>), so the magnitude
  does not strictly increase with the distance.
\<close>

theorem scroll_amount_is_truncated:
  "mode scroll_tracker = Scroll
   \<and> 324 / real_of_int (screen_height scroll_tracker) < 0.5 - 0.3 / 2
   \<and> handle_scroll 324 scroll_tracker = 0
   \<and> handle_scroll 200 scroll_tracker = 1
   \<and> handle_scroll 180 scroll_tracker = 1
   \<and> handle_scroll 880 scroll_tracker = - 1
   \<and> handle_scroll 900 scroll_tracker = - 1"
  by (simp add: scroll_tracker_def example_tracker_def init_tracker_def handle_scroll_def
      py_int_def Let_def)

section \<open>The blink handler's transitions\<close>

lemma detect_blink_fields:
  "blink_start_time (snd (detect_blink a st)) = blink_start_time st"
  "last_blink_time (snd (detect_blink a st)) = last_blink_time st"
  "blink_cooldown (snd (detect_blink a st)) = blink_cooldown st"
  "long_blink_threshold (snd (detect_blink a st)) = long_blink_threshold st"
  "mode (snd (detect_blink a st)) = mode st"
  by (simp_all add: detect_blink_def Let_def)

lemma switch_mode_fields:
  "last_blink_time (snd (switch_mode st)) = last_blink_time st"
  "blink_cooldown (snd (switch_mode st)) = blink_cooldown st"
  "blink_start_time (snd (switch_mode st)) = blink_start_time st"
  "ear_history (snd (switch_mode st)) = ear_history st"
  by (simp_all add: switch_mode_def Let_def)

lemma switch_mode_next:
  "fst (switch_mode st) = (case mode st of Cursor \<Rightarrow> Scroll | Scroll \<Rightarrow> Click | Click \<Rightarrow> Drag | Drag \<Rightarrow> Cursor)"
  by (cases "mode st") (simp_all add: switch_mode_def Let_def modes_def)

lemma blink_action_fields:
  "last_blink_time (snd (blink_action d st)) = last_blink_time st"
  "blink_cooldown (snd (blink_action d st)) = blink_cooldown st"
  "blink_start_time (snd (blink_action d st)) = blink_start_time st"
  "ear_history (snd (blink_action d st)) = ear_history st"
  by (simp_all add: blink_action_def Let_def split_beta switch_mode_fields)

lemma handle_blink_at_end:
  assumes "blink_start_time st = Some start" and "\<not> fst (detect_blink ((l + r) / 2) st)"
  shows "handle_blink now l r st =
     (if now - last_blink_time st > blink_cooldown st
      then blink_action (now - start)
             ((snd (detect_blink ((l + r) / 2) st))\<lparr>blink_start_time := None, last_blink_time := now\<rparr>)
      else (None, (snd (detect_blink ((l + r) / 2) st))\<lparr>blink_start_time := None\<rparr>))"
  using assms by (simp add: handle_blink_def Let_def split_beta detect_blink_fields)

text \<open>
  C7. When a blink ends (the tracker is blinking and \<open>is_blink\<close> is false) and the
  cooldown has elapsed, with a long-blink threshold of at least 0.3 s (it is 1.0 s): a
  duration below 0.3 s returns the short class, \<open>click\<close> in cursor and click mode and
  \<open>drag_toggle\<close> in drag mode; a duration from 0.3 s up to, not including, the long-blink
  threshold returns the medium class, \<open>right_click\<close> in cursor and click mode and nothing
  else; a duration of at least the long-blink threshold switches the mode and returns
  \<open>mode_switch_\<close> with the new mode's name.
\<close>

theorem blink_duration_classes:
  "blink_start_time st = Some start \<Longrightarrow> \<not> fst (detect_blink ((l + r) / 2) st) \<Longrightarrow>
   blink_cooldown st < now - last_blink_time st \<Longrightarrow> 0.3 \<le> long_blink_threshold st \<Longrightarrow>
     (now - start < 0.3 \<longrightarrow>
        fst (handle_blink now l r st)
          = (if mode st = Cursor \<or> mode st = Click then Some ''click''
             else if mode st = Drag then Some ''drag_toggle'' else None))
   \<and> (0.3 \<le> now - start \<and> now - start < long_blink_threshold st \<longrightarrow>
        fst (handle_blink now l r st)
          = (if mode st = Cursor \<or> mode st = Click then Some ''right_click'' else None))
   \<and> (long_blink_threshold st \<le> now - start \<longrightarrow>
        fst (handle_blink now l r st)
          = Some (''mode_switch_'' @ mode_name
               (case mode st of Cursor \<Rightarrow> Scroll | Scroll \<Rightarrow> Click | Click \<Rightarrow> Drag | Drag \<Rightarrow> Cursor)))"
proof -
  assume s: "blink_start_time st = Some start" and nb: "\<not> fst (detect_blink ((l + r) / 2) st)"
    and g: "blink_cooldown st < now - last_blink_time st" and lt: "0.3 \<le> long_blink_threshold st"
  let ?st = "(snd (detect_blink ((l + r) / 2) st))\<lparr>blink_start_time := None, last_blink_time := now\<rparr>"
  have hb: "handle_blink now l r st = blink_action (now - start) ?st"
    using handle_blink_at_end [OF s nb] g by simp
  have md: "mode ?st = mode st" and lg: "long_blink_threshold ?st = long_blink_threshold st"
    by (simp_all add: detect_blink_fields)
  have n: "fst (switch_mode ?st) = (case mode st of Cursor \<Rightarrow> Scroll | Scroll \<Rightarrow> Click | Click \<Rightarrow> Drag | Drag \<Rightarrow> Cursor)"
    by (simp add: switch_mode_next md)
  have a: "now - start < 0.3 \<longrightarrow>
        fst (handle_blink now l r st)
          = (if mode st = Cursor \<or> mode st = Click then Some ''click''
             else if mode st = Drag then Some ''drag_toggle'' else None)"
    unfolding hb blink_action_def md lg by simp
  have b: "0.3 \<le> now - start \<and> now - start < long_blink_threshold st \<longrightarrow>
        fst (handle_blink now l r st)
          = (if mode st = Cursor \<or> mode st = Click then Some ''right_click'' else None)"
    unfolding hb blink_action_def md lg by simp
  have c: "long_blink_threshold st \<le> now - start \<longrightarrow>
        fst (handle_blink now l r st)
          = Some (''mode_switch_'' @ mode_name
               (case mode st of Cursor \<Rightarrow> Scroll | Scroll \<Rightarrow> Click | Click \<Rightarrow> Drag | Drag \<Rightarrow> Cursor))"
    unfolding hb blink_action_def md lg using lt n by (simp add: split_beta Let_def)
  show ?thesis using a b c by blast
qed

text \<open>
  The four boundary durations at the default threshold, in cursor mode: 0.29 s clicks,
  0.30 s and 0.99 s right-click, 1.00 s switches to scroll mode.
\<close>

theorem blink_duration_classes_witness:
  "fst (handle_blink 10.29 0.3 0.3 blinking_tracker) = Some ''click''
   \<and> fst (handle_blink 10.30 0.3 0.3 blinking_tracker) = Some ''right_click''
   \<and> fst (handle_blink 10.99 0.3 0.3 blinking_tracker) = Some ''right_click''
   \<and> fst (handle_blink 11.00 0.3 0.3 blinking_tracker) = Some ''mode_switch_scroll''"
proof -
  have s: "blink_start_time blinking_tracker = Some 10"
    and c: "blink_cooldown blinking_tracker = 0.05" and la: "last_blink_time blinking_tracker = 0"
    and lg: "long_blink_threshold blinking_tracker = 1" and m: "mode blinking_tracker = Cursor"
    by (simp_all add: blinking_tracker_def example_tracker_def init_tracker_def)
  have nb: "\<not> fst (detect_blink ((0.3 + 0.3) / 2) blinking_tracker)"
    by (simp add: detect_blink_def relative_mode_def blinking_tracker_def example_tracker_def init_tracker_def)
  show ?thesis
    using blink_duration_classes [OF s nb, of "10.29"] blink_duration_classes [OF s nb, of "10.30"]
      blink_duration_classes [OF s nb, of "10.99"] blink_duration_classes [OF s nb, of "11.00"]
    by (simp add: c la lg m)
qed


section \<open>The cooldown\<close>

lemma spaced_earlier: "a' \<le> a \<Longrightarrow> spaced c (a # ts) \<Longrightarrow> spaced c (a' # ts)"
  by (cases ts) simp_all

lemma handle_blink_cooldown: "blink_cooldown (snd (handle_blink t l r st)) = blink_cooldown st"
  by (simp add: handle_blink_def Let_def split_beta detect_blink_fields blink_action_fields
      split: option.splits)

lemma handle_blink_gate:
  "(fst (handle_blink t l r st) \<noteq> None \<longrightarrow>
      last_blink_time (snd (handle_blink t l r st)) = t \<and> blink_cooldown st < t - last_blink_time st)
   \<and> (last_blink_time (snd (handle_blink t l r st)) = last_blink_time st
       \<or> (last_blink_time (snd (handle_blink t l r st)) = t
          \<and> blink_cooldown st < t - last_blink_time st))"
  by (simp add: handle_blink_def Let_def split_beta detect_blink_fields blink_action_fields
      split: option.splits)

lemma event_times_Cons:
  "event_times (f # frames) (e # events)
     = (if e \<noteq> None then fst f # event_times frames events else event_times frames events)"
  by (simp add: event_times_def)

lemma blink_run_Cons:
  "blink_run ((t, l, r) # frames) st
     = (fst (handle_blink t l r st) # fst (blink_run frames (snd (handle_blink t l r st))),
        snd (blink_run frames (snd (handle_blink t l r st))))"
  by (simp add: split_beta)

lemma events_spaced_from_last:
  assumes c: "0 \<le> blink_cooldown st"
  shows "spaced (blink_cooldown st)
           (last_blink_time st # event_times frames (fst (blink_run frames st)))"
  using c
proof (induction frames arbitrary: st)
  case Nil
  then show ?case by (simp add: event_times_def)
next
  case (Cons f frames)
  obtain t l r where f: "f = (t, l, r)" by (cases f) auto
  let ?st1 = "snd (handle_blink t l r st)"
  let ?E = "event_times frames (fst (blink_run frames ?st1))"
  have cd: "blink_cooldown ?st1 = blink_cooldown st" by (rule handle_blink_cooldown)
  have ih: "spaced (blink_cooldown st) (last_blink_time ?st1 # ?E)"
    using Cons.IH [of ?st1] Cons.prems by (simp add: cd)
  show ?case
  proof (cases "fst (handle_blink t l r st) = None")
    case True
    have "last_blink_time st \<le> last_blink_time ?st1"
      using handle_blink_gate [of t l r st] Cons.prems by auto
    then have "spaced (blink_cooldown st) (last_blink_time st # ?E)"
      using ih by (rule spaced_earlier)
    then show ?thesis unfolding f blink_run_Cons using True by (simp add: event_times_Cons)
  next
    case False
    then have "last_blink_time ?st1 = t \<and> blink_cooldown st < t - last_blink_time st"
      using handle_blink_gate [of t l r st] by blast
    then have "spaced (blink_cooldown st) (last_blink_time st # t # ?E)"
      using ih by simp
    then show ?thesis unfolding f blink_run_Cons using False by (simp add: event_times_Cons)
  qed
qed

text \<open>
  C8, as amended. On every blink-end transition the blinking-in-progress state is
  cleared. The event is suppressed by the cooldown exactly when the time since the last
  blink end that passed the cooldown check (at first: since the tracker was
  constructed) is not above the cooldown, and then \<open>last_blink_time\<close> stays as it is;
  a blink end that passes the check restarts the cooldown at the current clock and
  returns what the duration's class returns in the current mode, which may be no event.
  So, with a cooldown that is not negative, the events of a run are each more than the
  cooldown after the event before them and after the initial \<open>last_blink_time\<close>.
\<close>

theorem cooldown_gate:
  "(blink_start_time st = Some start \<and> \<not> fst (detect_blink ((l + r) / 2) st) \<longrightarrow>
      blink_start_time (snd (handle_blink now l r st)) = None
      \<and> (now - last_blink_time st \<le> blink_cooldown st \<longrightarrow>
           fst (handle_blink now l r st) = None
           \<and> last_blink_time (snd (handle_blink now l r st)) = last_blink_time st)
      \<and> (blink_cooldown st < now - last_blink_time st \<longrightarrow>
           last_blink_time (snd (handle_blink now l r st)) = now
           \<and> handle_blink now l r st
               = blink_action (now - start)
                   ((snd (detect_blink ((l + r) / 2) st))
                      \<lparr>blink_start_time := None, last_blink_time := now\<rparr>)))
   \<and> (0 \<le> blink_cooldown st \<longrightarrow>
        spaced (blink_cooldown st)
          (last_blink_time st # event_times frames (fst (blink_run frames st))))"
proof -
  have a: "blink_start_time (snd (handle_blink now l r st)) = None"
    and b: "now - last_blink_time st \<le> blink_cooldown st \<longrightarrow>
           fst (handle_blink now l r st) = None
           \<and> last_blink_time (snd (handle_blink now l r st)) = last_blink_time st"
    and c: "blink_cooldown st < now - last_blink_time st \<longrightarrow>
           last_blink_time (snd (handle_blink now l r st)) = now
           \<and> handle_blink now l r st
               = blink_action (now - start)
                   ((snd (detect_blink ((l + r) / 2) st))
                      \<lparr>blink_start_time := None, last_blink_time := now\<rparr>)"
    if s: "blink_start_time st = Some start" and nb: "\<not> fst (detect_blink ((l + r) / 2) st)"
    using handle_blink_at_end [OF s nb]
    by (simp_all add: blink_action_fields detect_blink_fields)
  show ?thesis using a b c events_spaced_from_last by blast
qed

text \<open>
  A run in drag mode with two short blinks 0.04 s apart and a third one later: the
  second is suppressed, the events at 10 and 10.6 are spaced; and one blink end with the
  check passed and one with the check failed.
\<close>

theorem cooldown_gate_witness:
  "fst (blink_run [(9.9, 0.1, 0.1), (10, 0.3, 0.3), (10.02, 0.1, 0.1), (10.04, 0.3, 0.3),
                   (10.5, 0.1, 0.1), (10.6, 0.3, 0.3)] drag_tracker)
     = [None, Some ''drag_toggle'', None, None, None, Some ''drag_toggle'']
   \<and> spaced 0.05 [0, 10, 10.6]
   \<and> handle_blink 10.2 0.3 0.3 blinking_tracker
       = (Some ''click'', blinking_tracker\<lparr>blink_start_time := None, last_blink_time := 10.2\<rparr>)
   \<and> handle_blink 10.2 0.3 0.3 (blinking_tracker\<lparr>last_blink_time := 10.15\<rparr>)
       = (None, blinking_tracker\<lparr>last_blink_time := 10.15, blink_start_time := None\<rparr>)"
proof -
  let ?fs = "[(9.9, 0.1, 0.1), (10, 0.3, 0.3), (10.02, 0.1, 0.1), (10.04, 0.3, 0.3),
                   (10.5, 0.1, 0.1), (10.6, 0.3, 0.3)] :: (real \<times> real \<times> real) list"
  have r: "fst (blink_run ?fs drag_tracker)
     = [None, Some ''drag_toggle'', None, None, None, Some ''drag_toggle'']"
    by (simp add: drag_tracker_def example_tracker_def init_tracker_def handle_blink_def
      detect_blink_def relative_mode_def blink_action_def Let_def)
  have c: "blink_cooldown drag_tracker = 0.05" and la: "last_blink_time drag_tracker = 0"
    by (simp_all add: drag_tracker_def example_tracker_def init_tracker_def)
  have c0: "0 \<le> blink_cooldown drag_tracker" by (simp add: c)
  have "spaced (blink_cooldown drag_tracker)
          (last_blink_time drag_tracker # event_times ?fs (fst (blink_run ?fs drag_tracker)))"
    using cooldown_gate [of drag_tracker 0 0 0 0 ?fs] c0 by blast
  then have sp: "spaced 0.05 [0, 10, 10.6]"
    unfolding r c la by (simp add: event_times_def)
  have s: "blink_start_time blinking_tracker = Some 10"
    by (simp add: blinking_tracker_def)
  have nb: "\<not> fst (detect_blink ((0.3 + 0.3) / 2) blinking_tracker)"
    by (simp add: detect_blink_def relative_mode_def blinking_tracker_def example_tracker_def
        init_tracker_def)
  have d: "snd (detect_blink ((0.3 + 0.3) / 2) blinking_tracker) = blinking_tracker"
    by (simp add: detect_blink_def relative_mode_def blinking_tracker_def example_tracker_def
        init_tracker_def)
  have g: "blink_cooldown blinking_tracker < 10.2 - last_blink_time blinking_tracker"
    by (simp add: blinking_tracker_def example_tracker_def init_tracker_def)
  have "handle_blink 10.2 0.3 0.3 blinking_tracker
       = blink_action (10.2 - 10)
           ((snd (detect_blink ((0.3 + 0.3) / 2) blinking_tracker))
              \<lparr>blink_start_time := None, last_blink_time := 10.2\<rparr>)"
    using cooldown_gate [of blinking_tracker 10 "0.3" "0.3" "10.2" "[]"] s nb g by blast
  then have open_gate: "handle_blink 10.2 0.3 0.3 blinking_tracker
       = (Some ''click'', blinking_tracker\<lparr>blink_start_time := None, last_blink_time := 10.2\<rparr>)"
    unfolding d
    by (simp add: blink_action_def blinking_tracker_def example_tracker_def init_tracker_def)
  have closed_gate: "handle_blink 10.2 0.3 0.3 (blinking_tracker\<lparr>last_blink_time := 10.15\<rparr>)
       = (None, blinking_tracker\<lparr>last_blink_time := 10.15, blink_start_time := None\<rparr>)"
    by (simp add: handle_blink_def detect_blink_def relative_mode_def blinking_tracker_def
        example_tracker_def init_tracker_def Let_def)
  show ?thesis using r sp open_gate closed_gate by blast
qed

text \<open>
  C8 as stated fails in drag mode. A blink of 0.5 s ends at clock 10: it passes the
  cooldown check and returns no event (the medium class has none in drag mode). The
  short blink that ends at 10.04 is then suppressed, although no event was ever
  returned; the same short blink alone returns \<open>drag_toggle\<close>. The suppression depends
  on a transition that emitted no event.
\<close>

theorem cooldown_restarts_without_event:
  "fst (blink_run [(9.5, 0.1, 0.1), (10, 0.3, 0.3), (10.02, 0.1, 0.1), (10.04, 0.3, 0.3)] drag_tracker)
     = [None, None, None, None]
   \<and> fst (blink_run [(10.02, 0.1, 0.1), (10.04, 0.3, 0.3)] drag_tracker)
     = [None, Some ''drag_toggle'']"
  by (simp add: drag_tracker_def example_tracker_def init_tracker_def handle_blink_def
      detect_blink_def relative_mode_def blink_action_def Let_def)

section \<open>Relative blink mode\<close>

lemma length_push_ear:
  "length (push_ear a h) \<le> 30 \<longleftrightarrow> (case h of None \<Rightarrow> True | Some h0 \<Rightarrow> length h0 \<le> 30)"
  by (cases h) (auto simp: push_ear_def Let_def)

lemma push_ear_cases:
  "(length h = 30 \<longrightarrow> push_ear a (Some h) = tl h @ [a])
   \<and> (length h < 30 \<longrightarrow> push_ear a (Some h) = h @ [a])
   \<and> push_ear a None = [a]"
  by (cases h) (auto simp: push_ear_def Let_def)

lemma detect_blink_history:
  "ear_history (snd (detect_blink a st))
     = (if relative_mode st then Some (push_ear a (ear_history st)) else ear_history st)"
  by (simp add: detect_blink_def Let_def)

lemma handle_blink_history:
  "ear_history (snd (handle_blink t l r st)) = ear_history (snd (detect_blink ((l + r) / 2) st))"
  by (simp add: handle_blink_def Let_def split_beta blink_action_fields split: option.splits)

lemma handle_blink_history_size:
  "history_size st \<le> 30 \<Longrightarrow> history_size (snd (handle_blink t l r st)) \<le> 30"
  using length_push_ear [of "(l + r) / 2" "ear_history st"]
  by (auto simp: history_size_def handle_blink_history detect_blink_history split: option.splits)

lemma blink_run_history_size:
  "history_size st \<le> 30 \<Longrightarrow> history_size (snd (blink_run frames st)) \<le> 30"
proof (induction frames arbitrary: st)
  case Nil
  then show ?case by simp
next
  case (Cons f frames)
  obtain t l r where f: "f = (t, l, r)" by (cases f) auto
  show ?case unfolding f blink_run_Cons
    using Cons.IH [OF handle_blink_history_size [OF Cons.prems]] by simp
qed

text \<open>
  C9. The history never exceeds 30 values, over one call and over any run of calls; in
  relative mode each call appends the frame's average to the history, and a history of
  30 values loses its oldest value for it. While the history, the new value included,
  holds fewer than 10 values, \<open>is_blink\<close> is false whatever the average is, and no blink
  begins; from 10 values on \<open>is_blink\<close> is the comparison of the average with the 80th
  percentile of the history times one minus the relative threshold.
\<close>

theorem relative_history:
  "(history_size st \<le> 30 \<longrightarrow>
      history_size (snd (handle_blink now l r st)) \<le> 30
      \<and> history_size (snd (blink_run frames st)) \<le> 30)
   \<and> (blink_relative st = Some cfg \<and> blink_relative_mode cfg \<longrightarrow>
        ear_history (snd (handle_blink now l r st))
          = Some (push_ear ((l + r) / 2) (ear_history st))
        \<and> (length (push_ear ((l + r) / 2) (ear_history st)) < 10 \<longrightarrow>
              \<not> fst (detect_blink ((l + r) / 2) st)
              \<and> (blink_start_time st = None \<longrightarrow>
                   blink_start_time (snd (handle_blink now l r st)) = None))
        \<and> (10 \<le> length (push_ear ((l + r) / 2) (ear_history st)) \<longrightarrow>
              fst (detect_blink ((l + r) / 2) st)
                = ((l + r) / 2
                    < np_percentile (push_ear ((l + r) / 2) (ear_history st)) 80
                      * (1 - blink_relative_threshold cfg))))
   \<and> (length h = 30 \<longrightarrow> push_ear a (Some h) = tl h @ [a])
   \<and> (length h < 30 \<longrightarrow> push_ear a (Some h) = h @ [a])
   \<and> push_ear a None = [a]"
proof -
  have a: "history_size st \<le> 30 \<longrightarrow>
      history_size (snd (handle_blink now l r st)) \<le> 30
      \<and> history_size (snd (blink_run frames st)) \<le> 30"
    using handle_blink_history_size blink_run_history_size by blast
  have b: "ear_history (snd (handle_blink now l r st))
          = Some (push_ear ((l + r) / 2) (ear_history st))
        \<and> (length (push_ear ((l + r) / 2) (ear_history st)) < 10 \<longrightarrow>
              \<not> fst (detect_blink ((l + r) / 2) st)
              \<and> (blink_start_time st = None \<longrightarrow>
                   blink_start_time (snd (handle_blink now l r st)) = None))
        \<and> (10 \<le> length (push_ear ((l + r) / 2) (ear_history st)) \<longrightarrow>
              fst (detect_blink ((l + r) / 2) st)
                = ((l + r) / 2
                    < np_percentile (push_ear ((l + r) / 2) (ear_history st)) 80
                      * (1 - blink_relative_threshold cfg)))"
    if r: "blink_relative st = Some cfg" and m: "blink_relative_mode cfg"
  proof -
    have rm: "relative_mode st" using r m by (simp add: relative_mode_def)
    have h: "ear_history (snd (handle_blink now l r st))
          = Some (push_ear ((l + r) / 2) (ear_history st))"
      by (simp add: handle_blink_history detect_blink_history rm)
    have lo: "length (push_ear ((l + r) / 2) (ear_history st)) < 10 \<Longrightarrow>
              \<not> fst (detect_blink ((l + r) / 2) st)"
      using rm by (simp add: detect_blink_def Let_def)
    have st: "length (push_ear ((l + r) / 2) (ear_history st)) < 10 \<Longrightarrow>
         blink_start_time st = None \<Longrightarrow> blink_start_time (snd (handle_blink now l r st)) = None"
      using lo by (simp add: handle_blink_def Let_def split_beta detect_blink_fields)
    have hi: "10 \<le> length (push_ear ((l + r) / 2) (ear_history st)) \<Longrightarrow>
              fst (detect_blink ((l + r) / 2) st)
                = ((l + r) / 2
                    < np_percentile (push_ear ((l + r) / 2) (ear_history st)) 80
                      * (1 - blink_relative_threshold cfg))"
      using rm r by (simp add: detect_blink_def Let_def)
    show ?thesis using h lo st hi by blast
  qed
  show ?thesis using a b push_ear_cases [of h a] by blast
qed

lemma percentile_of_ten: "np_percentile (replicate 9 0.3 @ [0.1]) 80 = 0.3"
  by (simp add: np_percentile_def eval_nat_numeral Let_def)

text \<open>
  With 8 values of 0.3 in the history an average of 0.1 is no blink (9 values); with 9
  values it is (10 values, baseline 0.3); a full history keeps 30 values.
\<close>

theorem relative_history_witness:
  "\<not> fst (detect_blink 0.1 (relative_tracker (replicate 8 0.3)))
   \<and> fst (detect_blink 0.1 (relative_tracker (replicate 9 0.3)))
   \<and> ear_history (snd (handle_blink 1 0.1 0.1 (relative_tracker (replicate 30 0.3))))
       = Some (replicate 29 0.3 @ [0.1])"
proof -
  let ?cfg = "\<lparr>blink_relative_mode = True, blink_baseline = 0.3, blink_relative_threshold = 0.2\<rparr>"
  have r: "blink_relative (relative_tracker h) = Some ?cfg \<and> blink_relative_mode ?cfg"
     and e: "ear_history (relative_tracker h) = Some h" for h
    by (simp_all add: relative_tracker_def)
  have p8: "push_ear 0.1 (Some (replicate 8 0.3)) = replicate 8 0.3 @ [0.1]"
    and p9: "push_ear 0.1 (Some (replicate 9 0.3)) = replicate 9 0.3 @ [0.1]"
    and p30: "push_ear 0.1 (Some (replicate 30 0.3)) = replicate 29 0.3 @ [0.1]"
    by (simp_all add: push_ear_def Let_def eval_nat_numeral)
  have a: "\<not> fst (detect_blink 0.1 (relative_tracker (replicate 8 0.3)))"
    using relative_history [of "relative_tracker (replicate 8 0.3)" 1 "0.1" "0.1" "[]" ?cfg "[]" 0] r [of "replicate 8 0.3"]
    by (simp add: e p8)
  have b: "fst (detect_blink 0.1 (relative_tracker (replicate 9 0.3)))"
    using relative_history [of "relative_tracker (replicate 9 0.3)" 1 "0.1" "0.1" "[]" ?cfg "[]" 0] r [of "replicate 9 0.3"]
    by (simp add: e p9 percentile_of_ten)
  have c: "ear_history (snd (handle_blink 1 0.1 0.1 (relative_tracker (replicate 30 0.3))))
       = Some (replicate 29 0.3 @ [0.1])"
    using relative_history [of "relative_tracker (replicate 30 0.3)" 1 "0.1" "0.1" "[]" ?cfg "[]" 0] r [of "replicate 30 0.3"]
    by (simp add: e p30)
  show ?thesis using a b c by blast
qed

end
